theory Spec2Isabelle
  imports Main "HOL-Library.Sublist" "HOL-Library.AList"
begin

section \<open>Python strings\<close>

text \<open>
  A Python \<open>str\<close> is modelled as a \<^typ>\<open>string\<close> whose characters stand for the code
  points U+0000 to U+00FF. The whitespace set of \<open>str.strip\<close> and the line boundaries of
  \<open>str.splitlines\<close> are the ones Python uses in that range.
\<close>

definition py_isspace :: "char \<Rightarrow> bool" where
  "py_isspace c =
     (let n = (of_char c :: nat)
      in (9 \<le> n \<and> n \<le> 13) \<or> (28 \<le> n \<and> n \<le> 32) \<or> n = 133 \<or> n = 160)"

definition lstrip :: "string \<Rightarrow> string" where
  "lstrip s = dropWhile py_isspace s"

definition rstrip :: "string \<Rightarrow> string" where
  "rstrip s = rev (dropWhile py_isspace (rev s))"

definition strip :: "string \<Rightarrow> string" where
  "strip s = rstrip (lstrip s)"

definition startswith :: "string \<Rightarrow> string \<Rightarrow> bool" where
  "startswith s p = prefix p s"

text \<open>
  The line boundaries of \<open>str.splitlines\<close>: LF, VT, FF, FS, GS, RS, NEL, and CR, where
  CR LF counts as one boundary.
\<close>

definition is_linebreak :: "char \<Rightarrow> bool" where
  "is_linebreak c =
     (let n = (of_char c :: nat)
      in (10 \<le> n \<and> n \<le> 13) \<or> (28 \<le> n \<and> n \<le> 30) \<or> n = 133)"

text \<open>
  \<open>splitlines_from cur s\<close>: the lines of \<open>s\<close>, where \<open>cur\<close> holds the characters of the
  line being read, in reverse. A text that ends with a boundary has no empty last line.
\<close>

fun splitlines_from :: "string \<Rightarrow> string \<Rightarrow> string list" where
  "splitlines_from cur [] = (if cur = [] then [] else [rev cur])"
| "splitlines_from cur (c # cs) =
     (if is_linebreak c then
        (if c = CHR 0x0D then
           (case cs of
              [] \<Rightarrow> [rev cur]
            | d # ds \<Rightarrow>
                if d = CHR 0x0A then rev cur # splitlines_from [] ds
                else rev cur # splitlines_from [] (d # ds))
         else rev cur # splitlines_from [] cs)
      else splitlines_from (c # cur) cs)"

declare splitlines_from.simps(2) [simp del]

definition splitlines :: "string \<Rightarrow> string list" where
  "splitlines s = splitlines_from [] s"

fun join :: "string \<Rightarrow> string list \<Rightarrow> string" where
  "join sep [] = []"
| "join sep [x] = x"
| "join sep (x # y # ys) = x @ sep @ join sep (y # ys)"

section \<open>Values decoded from JSON\<close>

text \<open>
  \<open>json.loads\<close> returns \<open>None\<close>, a \<open>bool\<close>, an \<open>int\<close>, a \<open>float\<close>, a \<open>str\<close>, a \<open>list\<close> or a
  \<open>dict\<close> with string keys. A \<open>dict\<close> is an association list in insertion order with
  distinct keys. The loop looks at a float in two ways only, its truth value and its
  \<open>str()\<close>, so a float is the pair of these.
\<close>

datatype pyfloat = PyFloat (nonzero: bool) (float_repr: string)

datatype json =
    JNull
  | JBool bool
  | JInt int
  | JFloat pyfloat
  | JStr string
  | JArr "json list"
  | JObj "(string \<times> json) list"

text \<open>Python's truth value of an object.\<close>

fun truthy :: "json \<Rightarrow> bool" where
  "truthy JNull = False"
| "truthy (JBool b) = b"
| "truthy (JInt i) = (i \<noteq> 0)"
| "truthy (JFloat f) = nonzero f"
| "truthy (JStr s) = (s \<noteq> [])"
| "truthy (JArr xs) = (xs \<noteq> [])"
| "truthy (JObj kvs) = (kvs \<noteq> [])"

text \<open>\<open>hashable v\<close>: \<open>hash(v)\<close> does not raise. Lists and dicts are unhashable.\<close>

fun hashable :: "json \<Rightarrow> bool" where
  "hashable (JArr xs) = False"
| "hashable (JObj kvs) = False"
| "hashable v = True"

subsection \<open>\<open>repr\<close> and \<open>str\<close>\<close>

fun nat_digits :: "nat \<Rightarrow> string" where
  "nat_digits n =
     (if n < 10 then [char_of (48 + n)]
      else nat_digits (n div 10) @ [char_of (48 + n mod 10)])"

declare nat_digits.simps [simp del]

definition hex_digit :: "nat \<Rightarrow> char" where
  "hex_digit n = (if n < 10 then char_of (48 + n) else char_of (87 + n))"

definition py_isprintable :: "char \<Rightarrow> bool" where
  "py_isprintable c =
     (let n = (of_char c :: nat)
      in (32 \<le> n \<and> n < 127) \<or> (161 \<le> n \<and> n \<noteq> 173))"

definition repr_char :: "char \<Rightarrow> char \<Rightarrow> string" where
  "repr_char quote c =
     (if c = quote \<or> c = CHR 0x5C then [CHR 0x5C, c]
      else if c = CHR 0x09 then [CHR 0x5C, CHR ''t'']
      else if c = CHR 0x0A then [CHR 0x5C, CHR ''n'']
      else if c = CHR 0x0D then [CHR 0x5C, CHR ''r'']
      else if py_isprintable c then [c]
      else [CHR 0x5C, CHR ''x'', hex_digit (of_char c div 16), hex_digit (of_char c mod 16)])"

definition repr_str :: "string \<Rightarrow> string" where
  "repr_str s =
     (let quote = (if CHR 0x27 \<in> set s \<and> CHR 0x22 \<notin> set s then CHR 0x22 else CHR 0x27)
      in [quote] @ concat (map (repr_char quote) s) @ [quote])"

fun py_repr :: "json \<Rightarrow> string" where
  "py_repr JNull = ''None''"
| "py_repr (JBool b) = (if b then ''True'' else ''False'')"
| "py_repr (JInt i) = (if i < 0 then ''-'' @ nat_digits (nat (- i)) else nat_digits (nat i))"
| "py_repr (JFloat f) = float_repr f"
| "py_repr (JStr s) = repr_str s"
| "py_repr (JArr xs) = ''['' @ join '', '' (map py_repr xs) @ '']''"
| "py_repr (JObj kvs) =
     ''{'' @ join '', '' (map (\<lambda>(k, v). repr_str k @ '': '' @ py_repr v) kvs) @ ''}''"

text \<open>\<open>str(v)\<close>, which is also what an f-string writes for \<open>{v}\<close>.\<close>

definition py_str :: "json \<Rightarrow> string" where
  "py_str v = (case v of JStr s \<Rightarrow> s | _ \<Rightarrow> py_repr v)"

section \<open>Collaborators\<close>

datatype role = System | User | Assistant

record message =
  role :: role
  content :: string

text \<open>
  The classes of the exceptions that are raised inside \<open>run_task\<close>. What \<open>router.chat\<close>
  raises is a \<open>ProviderError\<close>; \<open>TypeError\<close> is what a dictionary lookup with an unhashable
  key raises; \<open>json.loads\<close> raises \<open>JSONDecodeError\<close> on a text that is not JSON, and also
  \<open>RecursionError\<close> (brackets nested too deeply) and \<open>ValueError\<close> (an integer literal
  with too many digits); a tool may raise any of them. The last three classes derive
  from \<open>BaseException\<close> and not from \<open>Exception\<close>, so \<open>except Exception\<close> does not catch
  them.
\<close>

datatype error =
    ProviderError
  | TypeError
  | JSONDecodeError
  | RecursionError
  | ValueError
  | OtherException
  | KeyboardInterrupt
  | SystemExit
  | GeneratorExit

fun is_Exception :: "error \<Rightarrow> bool" where
  "is_Exception KeyboardInterrupt = False"
| "is_Exception SystemExit = False"
| "is_Exception GeneratorExit = False"
| "is_Exception e = True"

text \<open>
  The world outside the loop (the model service, the file system, the network) is a
  state of type \<open>'w\<close> that every call to a collaborator reads and changes.
  \<open>Tool.run\<close> returns its text (\<open>Inr\<close>) or raises an exception (\<open>Inl\<close>), given by its class
  and its \<open>str()\<close>. \<open>ModelRouter.chat\<close> returns the \<open>text\<close> of its response, or raises
  (\<open>None\<close>). Neither of them changes the list of messages or the input it is handed.
\<close>

record 'w tool =
  name :: string
  description :: string
  run :: "json \<Rightarrow> 'w \<Rightarrow> ((error \<times> string) + string) \<times> 'w"

type_synonym 'w tool_registry = "(string \<times> 'w tool) list"

definition register_tool :: "'w tool_registry \<Rightarrow> 'w tool \<Rightarrow> 'w tool_registry" where
  "register_tool reg t = AList.update (name t) t reg"

definition get_tool :: "'w tool_registry \<Rightarrow> json \<Rightarrow> error + 'w tool option" where
  "get_tool reg nm =
     (if \<not> hashable nm then Inl TypeError
      else case nm of JStr s \<Rightarrow> Inr (map_of reg s) | _ \<Rightarrow> Inr None)"

definition list_tools :: "'w tool_registry \<Rightarrow> 'w tool list" where
  "list_tools reg = map snd reg"

type_synonym prompt_manager = "(string \<times> string) list"

definition default_agent_system :: string where
  \<open>default_agent_system =
     ''You are a tool-using AI agent. You can call tools to browse the web, '' @
     ''read and write files, and run commands in a safe, restricted way.\<newline>\<newline>'' @
     ''You must always respond in JSON ONLY, with one of the following forms:\<newline>\<newline>'' @
     ''1) To call a tool:\<newline>'' @
     ''{\<newline>'' @
     ''  "tool": "tool_name",\<newline>'' @
     ''  "tool_input": { ... }\<newline>'' @
     ''}\<newline>\<newline>'' @
     ''2) To provide a final answer (no more tool calls):\<newline>'' @
     ''{\<newline>'' @
     ''  "tool": null,\<newline>'' @
     ''  "final_answer": "..."\<newline>'' @
     ''}\<newline>\<newline>'' @
     ''Never include any non-JSON text in your response. Tool names and input '' @
     ''must match the descriptions you are given.''\<close>

definition get_agent_system_prompt :: "prompt_manager \<Rightarrow> string" where
  "get_agent_system_prompt prompts_cfg =
     (case map_of prompts_cfg ''agent_system'' of Some p \<Rightarrow> p | None \<Rightarrow> default_agent_system)"

record 'w tool_agent =
  router :: "string \<Rightarrow> string \<Rightarrow> message list \<Rightarrow> 'w \<Rightarrow> string option \<times> 'w"
  prompts :: prompt_manager
  tools :: "'w tool_registry"
  provider_name :: string
  model_name :: string
  max_steps :: int

text \<open>\<open>ToolRegistry\<close> has no attribute \<open>tools\<close>, so the descriptions come from \<open>list_tools\<close>.\<close>

definition build_tool_descriptions :: "'w tool_agent \<Rightarrow> string" where
  "build_tool_descriptions ag =
     join ''\<newline>'' (map (\<lambda>t. ''- '' @ name t @ '': '' @ description t) (list_tools (tools ag)))"

section \<open>Reading one assistant response\<close>

text \<open>Lines 171 to 185 of \<open>run_task\<close>: drop a leading and a trailing fence line.\<close>

definition strip_fences :: "string \<Rightarrow> string" where
  "strip_fences raw =
     (if startswith raw ''```'' then
        (let lines0 = splitlines raw;
             lines1 = (if lines0 \<noteq> [] \<and> startswith (lstrip (hd lines0)) ''```''
                       then tl lines0 else lines0);
             lines2 = (if lines1 \<noteq> [] \<and> startswith (strip (last lines1)) ''```''
                       then butlast lines1 else lines1)
         in strip (join ''\<newline>'' lines2))
      else raw)"

text \<open>
  What one response means to the loop. \<open>ToolCall\<close> carries \<open>tool_name\<close> and \<open>tool_input\<close>
  as decoded; \<open>FinalAnswer\<close> and \<open>Opaque\<close> carry the text that \<open>run_task\<close> returns, for
  \<open>Opaque\<close> the variable \<open>raw\<close>.
\<close>

datatype decision =
    ToolCall json json
  | FinalAnswer string
  | Malformed
  | Opaque string

text \<open>
  Lines 170 to 232. \<open>loads\<close> stands for \<open>json.loads\<close>, which returns a value (\<open>Inr\<close>) or
  raises (\<open>Inl\<close>). The \<open>except\<close> clause of line 190 catches \<open>JSONDecodeError\<close> and nothing
  else: any other exception of \<open>json.loads\<close> leaves \<open>run_task\<close>, and then there is no
  decision.
\<close>

definition decide :: "(string \<Rightarrow> error + json) \<Rightarrow> string \<Rightarrow> error + decision" where
  "decide loads text =
     (let raw = strip text;
          raw_for_json = strip_fences raw
      in case loads raw_for_json of
           Inl e \<Rightarrow> if e = JSONDecodeError then Inr Malformed else Inl e
         | Inr parsed_value \<Rightarrow>
             Inr (case parsed_value of
                JObj parsed \<Rightarrow>
                  (case map_of parsed ''tool'' of
                     None \<Rightarrow>
                       (let otherwise =
                              (case map_of parsed ''error'' of
                                 Some err \<Rightarrow> FinalAnswer (py_str err)
                               | None \<Rightarrow> Opaque raw)
                        in case map_of parsed ''final_answer'' of
                             Some final_answer \<Rightarrow>
                               if truthy final_answer then FinalAnswer (py_str final_answer)
                               else otherwise
                           | None \<Rightarrow> otherwise)
                   | Some tool_name \<Rightarrow>
                       (if tool_name = JNull then
                          (case map_of parsed ''final_answer'' of
                             Some final_answer \<Rightarrow>
                               if truthy final_answer then FinalAnswer (py_str final_answer)
                               else Opaque raw
                           | None \<Rightarrow> Opaque raw)
                        else
                          (let tool_input =
                                 (case map_of parsed ''tool_input'' of
                                    Some v \<Rightarrow> if truthy v then v else JObj []
                                  | None \<Rightarrow> JObj [])
                           in ToolCall tool_name tool_input)))
              | _ \<Rightarrow> Opaque raw))"

section \<open>The loop of \<open>ToolAgent.run_task\<close>\<close>

text \<open>
  The local variables of \<open>run_task\<close>, the world, and two logs that the code does not
  keep: \<open>calls\<close>, the conversation handed to each call of \<open>router.chat\<close>, and
  \<open>decisions\<close>, what each response was read as.
\<close>

record 'w loop_state =
  messages :: "message list"
  invalid_json_attempts :: nat
  world :: 'w
  calls :: "message list list"
  decisions :: "decision list"

text \<open>How a run ends: by which \<open>return\<close>, or by an exception.\<close>

datatype exit_path =
    ByFinalAnswer
  | ByOpaque
  | ByMalformed
  | ByBudget
  | ByException

record 'w outcome =
  returned :: "error + string"
  via :: exit_path
  final :: "'w loop_state"

definition corrective_text :: string where
  "corrective_text =
     ''Your previous message was not valid JSON. '' @
     ''You MUST respond with JSON ONLY as described in the system prompt. '' @
     ''Do not include any extra text.''"

definition budget_text :: string where
  "budget_text = ''Maximum tool-calling steps reached without a final answer.''"

definition unavailable_text :: "json \<Rightarrow> string" where
  "unavailable_text tool_name = ''Tool '' @ [CHR 0x27] @ py_str tool_name @ [CHR 0x27] @ '' is not available.''"

definition raised_text :: "json \<Rightarrow> string \<Rightarrow> string" where
  "raised_text tool_name exc =
     ''Tool '' @ [CHR 0x27] @ py_str tool_name @ [CHR 0x27] @ '' raised an error: '' @ exc"

definition result_text :: "json \<Rightarrow> json \<Rightarrow> string \<Rightarrow> string" where
  "result_text tool_name tool_input tool_result =
     ''Result from tool '' @ [CHR 0x27] @ py_str tool_name @ [CHR 0x27] @ '' with input '' @
     py_str tool_input @ '':\<newline>'' @ tool_result"

text \<open>
  One pass through the body of the \<open>for\<close> loop: \<open>Return\<close> where the body returns or an
  exception leaves it, \<open>Next\<close> where it reaches its end or a \<open>continue\<close>. An exception leaves
  it in four places: the call of the router, \<open>json.loads\<close> with an exception other than
  \<open>JSONDecodeError\<close>, the lookup of an unhashable tool name, and a tool that raises an
  exception that is not an \<open>Exception\<close>.
\<close>

datatype 'w step = Return "'w outcome" | Next "'w loop_state"

definition loop_body ::
  "(string \<Rightarrow> error + json) \<Rightarrow> 'w tool_agent \<Rightarrow> 'w loop_state \<Rightarrow> 'w step" where
  "loop_body loads ag st =
     (case router ag (provider_name ag) (model_name ag) (messages st) (world st) of
        (None, w1) \<Rightarrow>
          Return \<lparr>returned = Inl ProviderError, via = ByException,
                  final = st\<lparr>world := w1, calls := calls st @ [messages st]\<rparr>\<rparr>
      | (Some text, w1) \<Rightarrow>
          (let st0 = st\<lparr>messages := messages st @ [\<lparr>role = Assistant, content = text\<rparr>],
                        world := w1,
                        calls := calls st @ [messages st]\<rparr>;
               raw = strip text
           in case decide loads text of
                Inl e \<Rightarrow> Return \<lparr>returned = Inl e, via = ByException, final = st0\<rparr>
              | Inr d \<Rightarrow>
                  (let st1 = st0\<lparr>decisions := decisions st0 @ [d]\<rparr>
                   in case d of
                        Malformed \<Rightarrow>
                          (let st2 = st1\<lparr>invalid_json_attempts :=
                                           invalid_json_attempts st1 + 1\<rparr>
                           in if invalid_json_attempts st2 \<ge> 2
                              then Return \<lparr>returned = Inr raw, via = ByMalformed, final = st2\<rparr>
                              else Next (st2\<lparr>messages := messages st2 @
                                                 [\<lparr>role = User, content = corrective_text\<rparr>]\<rparr>))
                      | Opaque t \<Rightarrow> Return \<lparr>returned = Inr t, via = ByOpaque, final = st1\<rparr>
                      | FinalAnswer t \<Rightarrow>
                          Return \<lparr>returned = Inr t, via = ByFinalAnswer, final = st1\<rparr>
                      | ToolCall tool_name tool_input \<Rightarrow>
                          (case get_tool (tools ag) tool_name of
                             Inl e \<Rightarrow>
                               Return \<lparr>returned = Inl e, via = ByException, final = st1\<rparr>
                           | Inr None \<Rightarrow>
                               Next (st1\<lparr>messages := messages st1 @
                                            [\<lparr>role = User,
                                              content = unavailable_text tool_name\<rparr>]\<rparr>)
                           | Inr (Some tool) \<Rightarrow>
                               (case run tool tool_input (world st1) of
                                  (Inr res, w2) \<Rightarrow>
                                    Next (st1\<lparr>messages := messages st1 @
                                                 [\<lparr>role = User,
                                                   content = result_text tool_name tool_input
                                                               res\<rparr>],
                                               world := w2\<rparr>)
                                | (Inl (e, exc), w2) \<Rightarrow>
                                    if is_Exception e then
                                      Next (st1\<lparr>messages := messages st1 @
                                                   [\<lparr>role = User,
                                                     content = result_text tool_name tool_input
                                                                 (raised_text tool_name exc)\<rparr>],
                                                 world := w2\<rparr>)
                                    else
                                      Return \<lparr>returned = Inl e, via = ByException,
                                              final = st1\<lparr>world := w2\<rparr>\<rparr>)))))"

text \<open>
  \<open>loop loads ag n st\<close>: the \<open>for\<close> loop with \<open>n\<close> iterations left, and the \<open>return\<close> after
  it.
\<close>

fun loop ::
  "(string \<Rightarrow> error + json) \<Rightarrow> 'w tool_agent \<Rightarrow> nat \<Rightarrow> 'w loop_state \<Rightarrow> 'w outcome" where
  "loop loads ag 0 st = \<lparr>returned = Inr budget_text, via = ByBudget, final = st\<rparr>"
| "loop loads ag (Suc n) st =
     (case loop_body loads ag st of
        Return out \<Rightarrow> out
      | Next st' \<Rightarrow> loop loads ag n st')"

definition run_task ::
  "(string \<Rightarrow> error + json) \<Rightarrow> 'w tool_agent \<Rightarrow> string \<Rightarrow> 'w \<Rightarrow> 'w outcome" where
  "run_task loads ag task w =
     (let system_prompt =
            get_agent_system_prompt (prompts ag) @ ''\<newline>\<newline>Available tools:\<newline>'' @
            build_tool_descriptions ag;
          messages0 = [\<lparr>role = System, content = system_prompt\<rparr>,
                       \<lparr>role = User, content = task\<rparr>]
      in loop loads ag (nat (max_steps ag))
           \<lparr>messages = messages0, invalid_json_attempts = 0, world = w,
            calls = [], decisions = []\<rparr>)"

section \<open>A decoder for plain JSON texts\<close>

text \<open>
  \<open>json_loads_plain\<close> decodes the JSON texts that have no backslash escape, no fraction,
  no exponent and no \<open>NaN\<close> or \<open>Infinity\<close>, following the scanner of \<open>json.loads\<close> (whitespace
  is space, tab, LF and CR; a control character inside a string is an error; of two equal
  keys the second value stays, at the place of the first). As CPython does with its
  default limits, it raises \<open>RecursionError\<close> when arrays and objects are nested a thousand
  deep, and \<open>ValueError\<close> on an integer literal of more than 4300 digits. On every other
  text it raises \<open>JSONDecodeError\<close>. It is the \<open>loads\<close> of the examples below, and the
  general theorems hold for every \<open>loads\<close>. The first argument of the three parsing
  functions bounds the number of nested calls, the second is the nesting still allowed.
\<close>

definition json_ws :: "char \<Rightarrow> bool" where
  "json_ws c = (c = CHR '' '' \<or> c = CHR 0x09 \<or> c = CHR 0x0A \<or> c = CHR 0x0D)"

definition skip_ws :: "string \<Rightarrow> string" where
  "skip_ws s = dropWhile json_ws s"

definition is_digit :: "char \<Rightarrow> bool" where
  "is_digit c = (48 \<le> (of_char c :: nat) \<and> (of_char c :: nat) \<le> 57)"

definition recursion_limit :: nat where
  "recursion_limit = 1000"

definition int_max_str_digits :: nat where
  "int_max_str_digits = 4300"

fun scan_string :: "string \<Rightarrow> string \<Rightarrow> (string \<times> string) option" where
  "scan_string acc [] = None"
| "scan_string acc (c # cs) =
     (if c = CHR 0x22 then Some (rev acc, cs)
      else if c = CHR 0x5C \<or> (of_char c :: nat) < 32 then None
      else scan_string (c # acc) cs)"

fun scan_digits :: "nat \<Rightarrow> string \<Rightarrow> nat \<times> string" where
  "scan_digits acc [] = (acc, [])"
| "scan_digits acc (c # cs) =
     (if is_digit c then scan_digits (10 * acc + (of_char c - 48)) cs else (acc, c # cs))"

definition scan_int :: "string \<Rightarrow> error + (int \<times> string)" where
  "scan_int s =
     (let (neg, body) = (case s of c # cs \<Rightarrow> if c = CHR ''-'' then (True, cs) else (False, s)
                                 | [] \<Rightarrow> (False, s))
      in case body of
           [] \<Rightarrow> Inl JSONDecodeError
         | d # ds \<Rightarrow>
             if \<not> is_digit d then Inl JSONDecodeError
             else if d = CHR ''0'' then
               (if ds \<noteq> [] \<and> hd ds \<in> {CHR ''.'', CHR ''e'', CHR ''E''} then Inl JSONDecodeError
                else Inr (0, ds))
             else if length (takeWhile is_digit body) > int_max_str_digits then Inl ValueError
             else (let (n, rest) = scan_digits 0 body
                   in if rest \<noteq> [] \<and> hd rest \<in> {CHR ''.'', CHR ''e'', CHR ''E''}
                      then Inl JSONDecodeError
                      else Inr (if neg then - int n else int n, rest)))"

fun parse_value :: "nat \<Rightarrow> nat \<Rightarrow> string \<Rightarrow> error + (json \<times> string)"
  and parse_elems ::
    "nat \<Rightarrow> nat \<Rightarrow> json list \<Rightarrow> string \<Rightarrow> error + (json list \<times> string)"
  and parse_members ::
    "nat \<Rightarrow> nat \<Rightarrow> (string \<times> json) list \<Rightarrow> string \<Rightarrow>
       error + ((string \<times> json) list \<times> string)"
where
  "parse_value 0 depth s = Inl JSONDecodeError"
| "parse_value (Suc n) depth s =
     (if prefix ''null'' s then Inr (JNull, drop 4 s)
      else if prefix ''true'' s then Inr (JBool True, drop 4 s)
      else if prefix ''false'' s then Inr (JBool False, drop 5 s)
      else case s of
             [] \<Rightarrow> Inl JSONDecodeError
           | c # cs \<Rightarrow>
               if c = CHR 0x22 then
                 (case scan_string [] cs of
                    None \<Rightarrow> Inl JSONDecodeError
                  | Some (str, rest) \<Rightarrow> Inr (JStr str, rest))
               else if c = CHR ''['' then
                 (case depth of
                    0 \<Rightarrow> Inl RecursionError
                  | Suc deeper \<Rightarrow>
                      (case skip_ws cs of
                         [] \<Rightarrow> Inl JSONDecodeError
                       | d # ds \<Rightarrow>
                           if d = CHR '']'' then Inr (JArr [], ds)
                           else (case parse_elems n deeper [] (d # ds) of
                                   Inl e \<Rightarrow> Inl e
                                 | Inr (xs, rest) \<Rightarrow> Inr (JArr xs, rest))))
               else if c = CHR ''{'' then
                 (case depth of
                    0 \<Rightarrow> Inl RecursionError
                  | Suc deeper \<Rightarrow>
                      (case skip_ws cs of
                         [] \<Rightarrow> Inl JSONDecodeError
                       | d # ds \<Rightarrow>
                           if d = CHR ''}'' then Inr (JObj [], ds)
                           else (case parse_members n deeper [] (d # ds) of
                                   Inl e \<Rightarrow> Inl e
                                 | Inr (kvs, rest) \<Rightarrow> Inr (JObj kvs, rest))))
               else (case scan_int s of
                       Inl e \<Rightarrow> Inl e
                     | Inr (i, rest) \<Rightarrow> Inr (JInt i, rest)))"
| "parse_elems 0 depth acc s = Inl JSONDecodeError"
| "parse_elems (Suc n) depth acc s =
     (case parse_value n depth s of
        Inl e \<Rightarrow> Inl e
      | Inr (v, rest) \<Rightarrow>
          (case skip_ws rest of
             [] \<Rightarrow> Inl JSONDecodeError
           | c # cs \<Rightarrow>
               if c = CHR '']'' then Inr (acc @ [v], cs)
               else if c = CHR '','' then parse_elems n depth (acc @ [v]) (skip_ws cs)
               else Inl JSONDecodeError))"
| "parse_members 0 depth acc s = Inl JSONDecodeError"
| "parse_members (Suc n) depth acc s =
     (case s of
        [] \<Rightarrow> Inl JSONDecodeError
      | q # qs \<Rightarrow>
          if q \<noteq> CHR 0x22 then Inl JSONDecodeError
          else (case scan_string [] qs of
                  None \<Rightarrow> Inl JSONDecodeError
                | Some (key, rest) \<Rightarrow>
                    (case skip_ws rest of
                       [] \<Rightarrow> Inl JSONDecodeError
                     | c # cs \<Rightarrow>
                         if c \<noteq> CHR '':'' then Inl JSONDecodeError
                         else (case parse_value n depth (skip_ws cs) of
                                 Inl e \<Rightarrow> Inl e
                               | Inr (v, rest2) \<Rightarrow>
                                   (case skip_ws rest2 of
                                      [] \<Rightarrow> Inl JSONDecodeError
                                    | e # es \<Rightarrow>
                                        if e = CHR ''}'' then Inr (AList.update key v acc, es)
                                        else if e = CHR '','' then
                                          parse_members n depth (AList.update key v acc)
                                            (skip_ws es)
                                        else Inl JSONDecodeError)))))"

definition json_loads_plain :: "string \<Rightarrow> error + json" where
  "json_loads_plain s =
     (case parse_value (2 * length s + 2) recursion_limit (skip_ws s) of
        Inl e \<Rightarrow> Inl e
      | Inr (v, rest) \<Rightarrow> if skip_ws rest = [] then Inr v else Inl JSONDecodeError)"

section \<open>Vocabulary of the properties\<close>


text \<open>
  The shape of a conversation: one system message, then user and assistant messages in
  turn, the first of them a user message.
\<close>

definition next_role :: "role \<Rightarrow> role" where
  "next_role r = (if r = User then Assistant else User)"

fun alternates :: "role \<Rightarrow> message list \<Rightarrow> bool" where
  "alternates r [] = True"
| "alternates r (m # ms) = (role m = r \<and> alternates (next_role r) ms)"

definition conversation_ok :: "message list \<Rightarrow> bool" where
  "conversation_ok ms =
     (case ms of [] \<Rightarrow> False | m # rest \<Rightarrow> role m = System \<and> alternates User rest)"

text \<open>The conversation at the start of an iteration: well shaped, and a user message last.\<close>

definition awaiting_reply :: "message list \<Rightarrow> bool" where
  "awaiting_reply ms = (conversation_ok ms \<and> 2 \<le> length ms \<and> role (last ms) = User)"

text \<open>No two \<open>Malformed\<close> decisions next to each other.\<close>

fun no_adjacent_malformed :: "decision list \<Rightarrow> bool" where
  "no_adjacent_malformed [] = True"
| "no_adjacent_malformed [d] = True"
| "no_adjacent_malformed (d # e # ds) =
     ((d \<noteq> Malformed \<or> e \<noteq> Malformed) \<and> no_adjacent_malformed (e # ds))"

section \<open>An agent for the examples\<close>

text \<open>
  The world of the examples is the list of replies the model service has still to give:
  each call of the router takes the first, and raises when none is left. The agent has
  three tools: one returns the \<open>str()\<close> of its input, one always raises an \<open>Exception\<close>, and
  one always raises \<open>KeyboardInterrupt\<close>.
\<close>

definition scripted_router ::
  "string \<Rightarrow> string \<Rightarrow> message list \<Rightarrow> string list \<Rightarrow> string option \<times> string list" where
  "scripted_router provider model msgs w =
     (case w of [] \<Rightarrow> (None, []) | reply # rest \<Rightarrow> (Some reply, rest))"

definition echo_tool :: "string list tool" where
  "echo_tool =
     \<lparr>name = ''echo'', description = ''Return the input.'',
      run = (\<lambda>tool_input w. (Inr (py_str tool_input), w))\<rparr>"

definition broken_tool :: "string list tool" where
  "broken_tool =
     \<lparr>name = ''broken'', description = ''Always fails.'',
      run = (\<lambda>tool_input w. (Inl (OtherException, ''boom''), w))\<rparr>"

definition interrupted_tool :: "string list tool" where
  "interrupted_tool =
     \<lparr>name = ''interrupted'', description = ''Is interrupted.'',
      run = (\<lambda>tool_input w. (Inl (KeyboardInterrupt, []), w))\<rparr>"

definition example_agent :: "int \<Rightarrow> string list tool_agent" where
  "example_agent budget =
     \<lparr>router = scripted_router, prompts = [(''agent_system'', ''Answer in JSON.'')],
      tools = register_tool (register_tool (register_tool [] echo_tool) broken_tool)
                interrupted_tool,
      provider_name = ''provider'', model_name = ''model'', max_steps = budget\<rparr>"

text \<open>The state in which \<open>run_task\<close> enters the loop for this agent and the task \<open>task\<close>.\<close>

definition start_state :: "string list \<Rightarrow> string list loop_state" where
  "start_state ws =
     \<lparr>messages =
        [\<lparr>role = System,
          content = ''Answer in JSON.\<newline>\<newline>Available tools:\<newline>'' @
                    ''- echo: Return the input.\<newline>- broken: Always fails.\<newline>'' @
                    ''- interrupted: Is interrupted.''\<rparr>,
         \<lparr>role = User, content = ''task''\<rparr>],
      invalid_json_attempts = 0, world = ws, calls = [], decisions = []\<rparr>"

section \<open>Facts about the string operations\<close>


















lemma strip_id:
  assumes "s \<noteq> []" and "\<not> py_isspace (hd s)" and "\<not> py_isspace (last s)"
  shows "strip s = s"
proof -
  have l: "lstrip s = s"
    using assms(1,2) by (cases s) (simp_all add: lstrip_def)
  obtain ys y where s: "s = ys @ [y]"
    using assms(1) by (cases s rule: rev_cases) auto
  have "rstrip s = s"
    using assms(3) unfolding s by (simp add: rstrip_def)
  with l show ?thesis by (simp add: strip_def)
qed





lemma strip_fences_plain: "\<not> startswith raw ''```'' \<Longrightarrow> strip_fences raw = raw"
  by (simp add: strip_fences_def)

section \<open>Facts about reading a response\<close>

lemma py_str_JStr: "py_str (JStr s) = s"
  by (simp add: py_str_def)

lemma decide_Malformed:
  "loads (strip_fences (strip t)) = Inl JSONDecodeError \<Longrightarrow> decide loads t = Inr Malformed"
  by (simp add: decide_def)

lemma decide_raises:
  "loads (strip_fences (strip t)) = Inl e \<Longrightarrow> e \<noteq> JSONDecodeError \<Longrightarrow> decide loads t = Inl e"
  by (simp add: decide_def)

lemma decide_no_tool_key:
  assumes "loads (strip_fences (strip t)) = Inr (JObj parsed)"
    and "map_of parsed ''tool'' = None"
  shows "decide loads t =
           Inr (case map_of parsed ''final_answer'' of
                  Some final_answer \<Rightarrow>
                    if truthy final_answer then FinalAnswer (py_str final_answer)
                    else (case map_of parsed ''error'' of
                            Some err \<Rightarrow> FinalAnswer (py_str err)
                          | None \<Rightarrow> Opaque (strip t))
                | None \<Rightarrow>
                    (case map_of parsed ''error'' of
                       Some err \<Rightarrow> FinalAnswer (py_str err)
                     | None \<Rightarrow> Opaque (strip t)))"
  using assms by (simp add: decide_def Let_def split: option.splits)


section \<open>Facts about the example decoder\<close>

text \<open>Brackets nested deeper than the nesting still allowed raise \<open>RecursionError\<close>.\<close>

lemma parse_value_too_deep:
  "depth < k \<Longrightarrow> 2 * depth + 1 \<le> n \<Longrightarrow>
   parse_value n depth (replicate k (CHR ''['') @ rest) = Inl RecursionError"
proof (induction depth arbitrary: k n)
  case 0
  then obtain k' n' where "k = Suc k'" and "n = Suc n'"
    by (cases k; cases n) simp_all
  then show ?case by simp
next
  case (Suc depth)
  from Suc.prems obtain k' where k: "k = Suc k'" and k': "depth < k'"
    by (cases k) simp_all
  from Suc.prems obtain n' where n: "n = Suc (Suc n')" and n': "2 * depth + 1 \<le> n'"
    by (cases n; cases "n - 1") simp_all
  from k' obtain k'' where k'': "k' = Suc k''"
    by (cases k') simp_all
  have ih: "parse_value n' depth (replicate k' (CHR ''['') @ rest) = Inl RecursionError"
    by (rule Suc.IH [OF k' n'])
  have ws: "skip_ws (replicate k' (CHR ''['') @ rest) = replicate k' (CHR ''['') @ rest"
    by (simp add: k'' skip_ws_def json_ws_def)
  show ?case
    unfolding k n
    using ih ws by (simp add: k'')
qed

lemma json_loads_plain_too_deep:
  assumes "recursion_limit < k"
  shows "json_loads_plain (replicate k (CHR ''['') @ rest) = Inl RecursionError"
proof -
  let ?s = "replicate k (CHR ''['') @ rest"
  obtain k' where k: "k = Suc k'"
    using assms by (cases k) simp_all
  have ws: "skip_ws ?s = ?s"
    by (simp add: k skip_ws_def json_ws_def)
  have "2 * recursion_limit + 1 \<le> 2 * length ?s + 2"
    using assms by simp
  from parse_value_too_deep [OF assms this, of rest] show ?thesis
    by (simp add: json_loads_plain_def ws)
qed

section \<open>Facts about conversations\<close>

lemma alternates_snoc:
  "alternates r (ms @ [m]) =
     (alternates r ms \<and> role m = (if ms = [] then r else next_role (role (last ms))))"
  by (induction ms arbitrary: r) auto

lemma awaiting_reply_assistant:
  assumes "awaiting_reply ms"
  shows "conversation_ok (ms @ [\<lparr>role = Assistant, content = t\<rparr>])"
proof -
  obtain m rest where ms: "ms = m # rest"
    using assms by (cases ms) (auto simp: awaiting_reply_def)
  have rest: "rest \<noteq> []"
    using assms ms by (auto simp: awaiting_reply_def)
  then have "last rest = last ms" using ms by simp
  then show ?thesis
    using assms ms rest
    by (simp add: awaiting_reply_def conversation_ok_def alternates_snoc next_role_def)
qed

lemma awaiting_reply_round:
  assumes "awaiting_reply ms"
  shows "awaiting_reply (ms @ [\<lparr>role = Assistant, content = t\<rparr>, \<lparr>role = User, content = u\<rparr>])"
proof -
  let ?a = "\<lparr>role = Assistant, content = t\<rparr>" and ?u = "\<lparr>role = User, content = u\<rparr>"
  obtain m rest where ms: "ms = m # rest"
    using assms by (cases ms) (auto simp: awaiting_reply_def)
  have "conversation_ok ((ms @ [?a]) @ [?u])"
    using awaiting_reply_assistant [OF assms, of t] unfolding ms
    by (simp add: conversation_ok_def alternates_snoc next_role_def del: append_assoc)
  then show ?thesis by (simp add: awaiting_reply_def)
qed

section \<open>Facts about the loop\<close>

text \<open>What an iteration that goes on to the next one has done.\<close>

lemma loop_body_Next:
  assumes "loop_body loads ag st = Next st'"
  obtains reply w1 u d where
    "router ag (provider_name ag) (model_name ag) (messages st) (world st) = (Some reply, w1)"
    "decide loads reply = Inr d"
    "messages st' =
       messages st @ [\<lparr>role = Assistant, content = reply\<rparr>, \<lparr>role = User, content = u\<rparr>]"
    "calls st' = calls st @ [messages st]"
    "decisions st' = decisions st @ [d]"
    "invalid_json_attempts st' =
       invalid_json_attempts st + (if d = Malformed then 1 else 0)"
    "invalid_json_attempts st' < 2 \<or> d \<noteq> Malformed"
  using assms
  by (auto simp: loop_body_def Let_def
           split: prod.splits option.splits decision.splits sum.splits if_splits)

text \<open>What an iteration that leaves the loop has done.\<close>

lemma loop_body_Return:
  assumes "loop_body loads ag st = Return out"
  obtains (raised) w1 where
    "router ag (provider_name ag) (model_name ag) (messages st) (world st) = (None, w1)"
    "messages (final out) = messages st"
    "calls (final out) = calls st @ [messages st]"
    "decisions (final out) = decisions st"
    "invalid_json_attempts (final out) = invalid_json_attempts st"
    "via out = ByException" "returned out = Inl ProviderError"
  | (replied) reply w1 where
    "router ag (provider_name ag) (model_name ag) (messages st) (world st) = (Some reply, w1)"
    "messages (final out) = messages st @ [\<lparr>role = Assistant, content = reply\<rparr>]"
    "calls (final out) = calls st @ [messages st]"
    "decisions (final out) =
       decisions st @ (case decide loads reply of Inr d \<Rightarrow> [d] | Inl e \<Rightarrow> [])"
    "invalid_json_attempts (final out) =
       invalid_json_attempts st + (if decide loads reply = Inr Malformed then 1 else 0)"
    "via out = ByMalformed \<longleftrightarrow> decide loads reply = Inr Malformed"
    "decide loads reply = Inr Malformed \<longrightarrow> 2 \<le> invalid_json_attempts (final out)"
    "via out \<noteq> ByBudget"
  using assms
  by (auto simp: loop_body_def Let_def
           split: prod.splits option.splits decision.splits sum.splits if_splits)

lemma loop_calls_bound:
  "length (calls (final (loop loads ag n st))) \<le> length (calls st) + n"
proof (induction n arbitrary: st)
  case 0
  show ?case by simp
next
  case (Suc n)
  show ?case
  proof (cases "loop_body loads ag st")
    case (Return out)
    show ?thesis
      by (rule loop_body_Return [OF Return]) (simp_all add: Return)
  next
    case (Next st')
    show ?thesis
      by (rule loop_body_Next [OF Next]) (use Suc.IH [of st'] in \<open>simp add: Next\<close>)
  qed
qed

lemma loop_budget_exit:
  "via (loop loads ag n st) = ByBudget \<Longrightarrow>
     returned (loop loads ag n st) = Inr budget_text \<and>
     length (calls (final (loop loads ag n st))) = length (calls st) + n"
proof (induction n arbitrary: st)
  case 0
  show ?case by simp
next
  case (Suc n)
  show ?case
  proof (cases "loop_body loads ag st")
    case (Return out)
    show ?thesis
      by (rule loop_body_Return [OF Return]) (use Suc.prems in \<open>simp_all add: Return\<close>)
  next
    case (Next st')
    show ?thesis
      by (rule loop_body_Next [OF Next])
         (use Suc.IH [of st'] Suc.prems in \<open>simp add: Next\<close>)
  qed
qed

lemma loop_calls_prefix: "prefix (calls st) (calls (final (loop loads ag n st)))"
proof (induction n arbitrary: st)
  case 0
  show ?case by simp
next
  case (Suc n)
  show ?case
  proof (cases "loop_body loads ag st")
    case (Return out)
    show ?thesis
      by (rule loop_body_Return [OF Return]) (simp_all add: Return)
  next
    case (Next st')
    show ?thesis
      by (rule loop_body_Next [OF Next])
         (use Suc.IH [of st'] in \<open>auto simp: Next dest: append_prefixD\<close>)
  qed
qed

lemma loop_first_call:
  "prefix (calls st @ [messages st]) (calls (final (loop loads ag (Suc n) st)))"
proof (cases "loop_body loads ag st")
  case (Return out)
  show ?thesis
    by (rule loop_body_Return [OF Return]) (simp_all add: Return)
next
  case (Next st')
  show ?thesis
    by (rule loop_body_Next [OF Next])
       (use loop_calls_prefix [of st' loads ag n] in \<open>simp add: Next\<close>)
qed

text \<open>The counter is the number of \<open>Malformed\<close> decisions so far, in every state of a run.\<close>

lemma loop_counter:
  assumes "invalid_json_attempts st = count_list (decisions st) Malformed"
    and "invalid_json_attempts st < 2"
  shows "invalid_json_attempts (final (loop loads ag n st)) =
           count_list (decisions (final (loop loads ag n st))) Malformed \<and>
         invalid_json_attempts (final (loop loads ag n st)) \<le> 2 \<and>
         (via (loop loads ag n st) = ByMalformed \<longleftrightarrow>
            invalid_json_attempts (final (loop loads ag n st)) = 2)"
  using assms
proof (induction n arbitrary: st)
  case 0
  then show ?case by simp
next
  case (Suc n)
  show ?case
  proof (cases "loop_body loads ag st")
    case (Return out)
    show ?thesis
      by (rule loop_body_Return [OF Return]) (use Suc.prems in \<open>auto simp: Return\<close>)
  next
    case (Next st')
    have "invalid_json_attempts st' = count_list (decisions st') Malformed \<and>
          invalid_json_attempts st' < 2"
      by (rule loop_body_Next [OF Next]) (use Suc.prems in auto)
    then show ?thesis using Suc.IH [of st'] Next by simp
  qed
qed

lemma loop_conversation:
  assumes "awaiting_reply (messages st)"
    and "\<forall>c \<in> set (calls st). conversation_ok c \<and> strict_prefix c (messages st)"
    and "sorted_wrt strict_prefix (calls st)"
  shows "conversation_ok (messages (final (loop loads ag n st))) \<and>
         (\<forall>c \<in> set (calls (final (loop loads ag n st))).
            conversation_ok c \<and> prefix c (messages (final (loop loads ag n st)))) \<and>
         sorted_wrt strict_prefix (calls (final (loop loads ag n st)))"
  using assms
proof (induction n arbitrary: st)
  case 0
  then show ?case by (auto simp: awaiting_reply_def)
next
  case (Suc n)
  have ok: "conversation_ok (messages st)"
    using Suc.prems(1) by (simp add: awaiting_reply_def)
  have sorted: "sorted_wrt strict_prefix (calls st @ [messages st])"
    using Suc.prems(2,3) by (simp add: sorted_wrt_append)
  show ?case
  proof (cases "loop_body loads ag st")
    case (Return out)
    then show ?thesis
    proof (elim loop_body_Return)
      fix w1
      assume "messages (final out) = messages st" "calls (final out) = calls st @ [messages st]"
      then show ?thesis using Return Suc.prems ok sorted by auto
    next
      fix reply w1
      assume "messages (final out) = messages st @ [\<lparr>role = Assistant, content = reply\<rparr>]"
        "calls (final out) = calls st @ [messages st]"
      then show ?thesis
        using Return Suc.prems(2) ok sorted awaiting_reply_assistant [OF Suc.prems(1), of reply]
        by (auto intro: prefix_order.less_imp_le prefix_order.order_trans)
    qed
  next
    case (Next st')
    then show ?thesis
    proof (elim loop_body_Next)
      fix reply w1 u
      assume m: "messages st' = messages st @
                   [\<lparr>role = Assistant, content = reply\<rparr>, \<lparr>role = User, content = u\<rparr>]"
        and c: "calls st' = calls st @ [messages st]"
      have 1: "awaiting_reply (messages st')"
        unfolding m by (rule awaiting_reply_round [OF Suc.prems(1)])
      have 2: "\<forall>c \<in> set (calls st'). conversation_ok c \<and> strict_prefix c (messages st')"
        using Suc.prems(2) ok unfolding m c
        by (auto simp: strict_prefix_def intro: prefix_order.order_trans)
      have 3: "sorted_wrt strict_prefix (calls st')"
        unfolding c by (rule sorted)
      show ?thesis using Suc.IH [OF 1 2 3] Next by simp
    qed
  qed
qed

lemma loop_body_answer:
  assumes "router ag (provider_name ag) (model_name ag) (messages st) (world st) = (Some reply, w1)"
    and "decide loads reply = Inr (FinalAnswer t) \<or> decide loads reply = Inr (Opaque t)"
  shows "returned (loop loads ag (Suc n) st) = Inr t \<and>
         messages (final (loop loads ag (Suc n) st)) =
           messages st @ [\<lparr>role = Assistant, content = reply\<rparr>] \<and>
         calls (final (loop loads ag (Suc n) st)) = calls st @ [messages st]"
  using assms by (auto simp: loop_body_def Let_def)

text \<open>
  \<open>run_task\<close> is the loop, started with the system message and the task, the counter at
  zero and \<open>max_steps\<close> iterations; every later iteration starts in a state the loop has
  reached from there.
\<close>

lemma run_task_enters_loop:
  "run_task loads ag task w =
     loop loads ag (nat (max_steps ag))
       \<lparr>messages =
          [\<lparr>role = System,
            content = get_agent_system_prompt (prompts ag) @
                      ''\<newline>\<newline>Available tools:\<newline>'' @ build_tool_descriptions ag\<rparr>,
           \<lparr>role = User, content = task\<rparr>],
        invalid_json_attempts = 0, world = w, calls = [], decisions = []\<rparr>"
  by (simp add: run_task_def Let_def)

text \<open>
  When the counter is already one, a malformed reply ends the run at once: two malformed
  replies in a row are only ever read from a state whose counter is zero.
\<close>

lemma malformed_after_one_stops:
  assumes "router ag (provider_name ag) (model_name ag) (messages st) (world st) = (Some reply, w1)"
    and "loads (strip_fences (strip reply)) = Inl JSONDecodeError"
    and "invalid_json_attempts st = 1"
  shows "returned (loop loads ag (Suc n) st) = Inr (strip reply) \<and>
         via (loop loads ag (Suc n) st) = ByMalformed \<and>
         calls (final (loop loads ag (Suc n) st)) = calls st @ [messages st]"
  using assms(1,3) decide_Malformed [of loads reply, OF assms(2)]
  by (simp add: loop_body_def Let_def)

text \<open>For the example agent, \<open>run_task\<close> enters the loop in \<open>start_state\<close>.\<close>

lemma run_task_example:
  "run_task loads (example_agent k) ''task'' ws = loop loads (example_agent k) (nat k) (start_state ws)"
  by (simp add: run_task_def example_agent_def start_state_def get_agent_system_prompt_def
        build_tool_descriptions_def list_tools_def register_tool_def echo_tool_def
        broken_tool_def interrupted_tool_def)

text \<open>
  A run in which \<open>json.loads\<close> raises an exception that is not a \<open>JSONDecodeError\<close>: the
  second reply opens five thousand arrays. The first reply is malformed and counted; at
  the second \<open>run_task\<close> raises \<open>RecursionError\<close>, and does not return.
\<close>

lemma deep_reply_run:
  "returned (run_task json_loads_plain (example_agent 4) ''task''
      [''not json'', replicate 5000 (CHR ''['') @ '' not json'']) = Inl RecursionError \<and>
   via (run_task json_loads_plain (example_agent 4) ''task''
      [''not json'', replicate 5000 (CHR ''['') @ '' not json'']) = ByException \<and>
   decisions (final (run_task json_loads_plain (example_agent 4) ''task''
      [''not json'', replicate 5000 (CHR ''['') @ '' not json''])) = [Malformed] \<and>
   length (calls (final (run_task json_loads_plain (example_agent 4) ''task''
      [''not json'', replicate 5000 (CHR ''['') @ '' not json'']))) = 2"
proof -
  define deep where "deep = replicate 5000 (CHR ''['') @ '' not json''"
  let ?ag = "example_agent 4"
  have ne: "deep \<noteq> []" and hd: "hd deep = CHR ''[''" and last: "last deep = CHR ''n''"
    by (simp_all add: deep_def hd_append)
  have s: "strip deep = deep"
    by (rule strip_id) (simp_all add: ne hd last py_isspace_def)
  have "\<not> startswith deep ''```''"
    using ne hd by (cases deep) (simp_all add: startswith_def)
  then have f: "strip_fences (strip deep) = deep"
    using s by (simp add: strip_fences_plain)
  have "json_loads_plain deep = Inl RecursionError"
    unfolding deep_def by (rule json_loads_plain_too_deep) (simp add: recursion_limit_def)
  then have d2: "decide json_loads_plain deep = Inl RecursionError"
    using f by (intro decide_raises) simp_all
  have d1: "decide json_loads_plain ''not json'' = Inr Malformed"
    by code_simp
  let ?st' = "(start_state [''not json'', deep])
                \<lparr>messages := messages (start_state [''not json'', deep]) @
                     [\<lparr>role = Assistant, content = ''not json''\<rparr>,
                      \<lparr>role = User, content = corrective_text\<rparr>],
                 invalid_json_attempts := 1, world := [deep],
                 calls := [messages (start_state [''not json'', deep])],
                 decisions := [Malformed]\<rparr>"
  have 1: "loop_body json_loads_plain ?ag (start_state [''not json'', deep]) = Next ?st'"
    by (simp add: loop_body_def Let_def example_agent_def scripted_router_def start_state_def d1)
  have 2: "loop_body json_loads_plain ?ag ?st' =
             Return \<lparr>returned = Inl RecursionError, via = ByException,
                     final = ?st'\<lparr>messages := messages ?st' @ [\<lparr>role = Assistant, content = deep\<rparr>],
                                  world := [],
                                  calls := calls ?st' @ [messages ?st']\<rparr>\<rparr>"
    by (simp add: loop_body_def Let_def example_agent_def scripted_router_def d2)
  have l: "loop json_loads_plain ?ag (Suc (Suc 2)) (start_state [''not json'', deep]) =
          \<lparr>returned = Inl RecursionError, via = ByException,
           final = ?st'\<lparr>messages := messages ?st' @ [\<lparr>role = Assistant, content = deep\<rparr>],
                        world := [],
                        calls := calls ?st' @ [messages ?st']\<rparr>\<rparr>"
    unfolding loop.simps 1 step.case 2 by simp
  have n: "nat (4::int) = Suc (Suc 2)"
    by simp
  have "returned (run_task json_loads_plain ?ag ''task'' [''not json'', deep]) =
          Inl RecursionError \<and>
        via (run_task json_loads_plain ?ag ''task'' [''not json'', deep]) = ByException \<and>
        decisions (final (run_task json_loads_plain ?ag ''task'' [''not json'', deep])) =
          [Malformed] \<and>
        length (calls (final (run_task json_loads_plain ?ag ''task'' [''not json'', deep]))) = 2"
    unfolding run_task_example n l by simp
  then show ?thesis
    unfolding deep_def .
qed

section \<open>The properties\<close>

subsection \<open>C1: the invalid-response counter\<close>

text \<open>
  Claim C1, as the code has it. A malformed response is one on which \<open>json.loads\<close> raises
  \<open>JSONDecodeError\<close>: it is read as \<open>Malformed\<close>. \<open>invalid_json_attempts\<close> is set to zero
  once, before the loop, and no branch of the loop sets it back: at the end of every run,
  however the run ends, it is the number of all \<open>Malformed\<close> decisions of that run, it
  never exceeds two, and the run ends by the malformed-threshold \<open>return\<close> exactly when
  that number is two. A well-formed response leaves the counter as it is; a run with at
  most one malformed response never ends by the threshold.
\<close>

theorem invalid_counter_counts_all:
  "invalid_json_attempts (final (run_task loads ag task w)) =
     count_list (decisions (final (run_task loads ag task w))) Malformed \<and>
   count_list (decisions (final (run_task loads ag task w))) Malformed \<le> 2 \<and>
   (via (run_task loads ag task w) = ByMalformed \<longleftrightarrow>
      count_list (decisions (final (run_task loads ag task w))) Malformed = 2)"
proof -
  let ?st = "\<lparr>messages =
                [\<lparr>role = System,
                  content = get_agent_system_prompt (prompts ag) @
                            ''\<newline>\<newline>Available tools:\<newline>'' @ build_tool_descriptions ag\<rparr>,
                 \<lparr>role = User, content = task\<rparr>],
              invalid_json_attempts = 0, world = w, calls = [], decisions = []\<rparr>"
  have "invalid_json_attempts ?st = count_list (decisions ?st) Malformed"
    and "invalid_json_attempts ?st < 2"
    by simp_all
  from loop_counter [OF this, of loads ag "nat (max_steps ag)"] show ?thesis
    by (simp add: run_task_def Let_def)
qed

text \<open>
  Claim C1 as stated fails. The replies are a malformed text, a call of an unregistered
  tool, and a malformed text again: no two \<open>Malformed\<close> decisions are next to each other,
  and the run ends by the malformed-threshold \<open>return\<close>, at the third reply.
\<close>

theorem consecutive_counter_counterexample:
  \<open>decisions (final (run_task json_loads_plain (example_agent 4) ''task''
      [''not json'', ''{"tool": "nonexistent_tool"}'', ''still not json''])) =
     [Malformed, ToolCall (JStr ''nonexistent_tool'') (JObj []), Malformed] \<and>
   no_adjacent_malformed
     (decisions (final (run_task json_loads_plain (example_agent 4) ''task''
        [''not json'', ''{"tool": "nonexistent_tool"}'', ''still not json'']))) \<and>
   via (run_task json_loads_plain (example_agent 4) ''task''
      [''not json'', ''{"tool": "nonexistent_tool"}'', ''still not json'']) = ByMalformed \<and>
   returned (run_task json_loads_plain (example_agent 4) ''task''
      [''not json'', ''{"tool": "nonexistent_tool"}'', ''still not json'']) =
     Inr ''still not json''\<close>
  by code_simp

subsection \<open>C2: the step budget\<close>

text \<open>
  Claim C2, amended in the text of the message only. With a step budget \<open>N \<ge> 1\<close>,
  \<open>run_task\<close> calls the router at most \<open>N\<close> times; when the run ends because the budget
  is used up, it has called the router exactly \<open>N\<close> times and returns the fixed message
  \<open>Maximum tool-calling steps reached without a final answer.\<close>
\<close>

theorem step_budget_bound:
  assumes "1 \<le> max_steps ag"
  shows "length (calls (final (run_task loads ag task w))) \<le> nat (max_steps ag) \<and>
         (via (run_task loads ag task w) = ByBudget \<longrightarrow>
            returned (run_task loads ag task w) =
              Inr ''Maximum tool-calling steps reached without a final answer.'' \<and>
            length (calls (final (run_task loads ag task w))) = nat (max_steps ag))"
proof -
  let ?st = "\<lparr>messages =
                [\<lparr>role = System,
                  content = get_agent_system_prompt (prompts ag) @
                            ''\<newline>\<newline>Available tools:\<newline>'' @ build_tool_descriptions ag\<rparr>,
                 \<lparr>role = User, content = task\<rparr>],
              invalid_json_attempts = 0, world = w, calls = [], decisions = []\<rparr>"
  have run: "run_task loads ag task w = loop loads ag (nat (max_steps ag)) ?st"
    by (simp add: run_task_def Let_def)
  show ?thesis
    unfolding run
    using loop_calls_bound [of loads ag "nat (max_steps ag)" ?st]
      loop_budget_exit [of loads ag "nat (max_steps ag)" ?st]
    by (simp add: budget_text_def)
qed

theorem step_budget_bound_witness:
  \<open>1 \<le> max_steps (example_agent 2) \<and>
   via (run_task json_loads_plain (example_agent 2) ''task''
      [''{"tool": "echo", "tool_input": {"a": 1}}'',
       ''{"tool": "echo", "tool_input": {"a": 2}}'',
       ''{"tool": null, "final_answer": "late"}'']) = ByBudget \<and>
   returned (run_task json_loads_plain (example_agent 2) ''task''
      [''{"tool": "echo", "tool_input": {"a": 1}}'',
       ''{"tool": "echo", "tool_input": {"a": 2}}'',
       ''{"tool": null, "final_answer": "late"}'']) =
     Inr ''Maximum tool-calling steps reached without a final answer.'' \<and>
   length (calls (final (run_task json_loads_plain (example_agent 2) ''task''
      [''{"tool": "echo", "tool_input": {"a": 1}}'',
       ''{"tool": "echo", "tool_input": {"a": 2}}'',
       ''{"tool": null, "final_answer": "late"}'']))) = 2\<close>
proof -
  let ?ws = \<open>[''{"tool": "echo", "tool_input": {"a": 1}}'',
              ''{"tool": "echo", "tool_input": {"a": 2}}'',
              ''{"tool": null, "final_answer": "late"}'']\<close>
  have h: "1 \<le> max_steps (example_agent 2)"
    by (simp add: example_agent_def)
  have v: "via (run_task json_loads_plain (example_agent 2) ''task'' ?ws) = ByBudget"
    by code_simp
  have n: "nat (max_steps (example_agent 2)) = 2"
    by (simp add: example_agent_def)
  from step_budget_bound [OF h, of json_loads_plain "''task''" ?ws] h v n
  show ?thesis by simp
qed

text \<open>
  Claim C2 as stated fails in the message it quotes. With a budget of two and two calls
  of a registered tool, the run ends after the second call of the router, and what it
  returns is not the text \<open>maximum steps reached without a final answer\<close>.
\<close>

theorem budget_message_counterexample:
  \<open>via (run_task json_loads_plain (example_agent 2) ''task''
      [''{"tool": "echo", "tool_input": {"a": 1}}'',
       ''{"tool": "echo", "tool_input": {"a": 2}}'',
       ''{"tool": null, "final_answer": "late"}'']) = ByBudget \<and>
   length (calls (final (run_task json_loads_plain (example_agent 2) ''task''
      [''{"tool": "echo", "tool_input": {"a": 1}}'',
       ''{"tool": "echo", "tool_input": {"a": 2}}'',
       ''{"tool": null, "final_answer": "late"}'']))) = 2 \<and>
   returned (run_task json_loads_plain (example_agent 2) ''task''
      [''{"tool": "echo", "tool_input": {"a": 1}}'',
       ''{"tool": "echo", "tool_input": {"a": 2}}'',
       ''{"tool": null, "final_answer": "late"}'']) \<noteq>
     Inr ''maximum steps reached without a final answer''\<close>
  by code_simp

subsection \<open>C3: two malformed responses in a row\<close>

text \<open>
  Claim C3, amended in what is returned and in what unparseable means. Let an iteration
  start in a state whose counter is zero, with at least two iterations left. If
  \<open>json.loads\<close> raises \<open>JSONDecodeError\<close> on the reply of this call and on the reply of the
  next call, the run ends right after the second of them: the router has been called
  twice more and not a third time, and the value returned is the second reply with its
  leading and trailing whitespace removed. What \<open>run_task\<close> does when \<open>json.loads\<close> raises
  another exception is not part of the amended claim.
\<close>

theorem two_malformed_stop:
  assumes "router ag (provider_name ag) (model_name ag) (messages st) (world st) = (Some t1, w1)"
    and "loads (strip_fences (strip t1)) = Inl JSONDecodeError"
    and "invalid_json_attempts st = 0"
    and "router ag (provider_name ag) (model_name ag)
           (messages st @ [\<lparr>role = Assistant, content = t1\<rparr>,
                           \<lparr>role = User, content = corrective_text\<rparr>]) w1 = (Some t2, w2)"
    and "loads (strip_fences (strip t2)) = Inl JSONDecodeError"
  shows "loop loads ag (Suc (Suc n)) st =
           \<lparr>returned = Inr (strip t2), via = ByMalformed,
            final = st\<lparr>messages := messages st @
                                     [\<lparr>role = Assistant, content = t1\<rparr>,
                                      \<lparr>role = User, content = corrective_text\<rparr>,
                                      \<lparr>role = Assistant, content = t2\<rparr>],
                       invalid_json_attempts := 2,
                       world := w2,
                       calls := calls st @
                                  [messages st,
                                   messages st @ [\<lparr>role = Assistant, content = t1\<rparr>,
                                                  \<lparr>role = User, content = corrective_text\<rparr>]],
                       decisions := decisions st @ [Malformed, Malformed]\<rparr>\<rparr>"
proof -
  let ?st' = "st\<lparr>messages := messages st @ [\<lparr>role = Assistant, content = t1\<rparr>,
                                             \<lparr>role = User, content = corrective_text\<rparr>],
                 invalid_json_attempts := 1, world := w1,
                 calls := calls st @ [messages st],
                 decisions := decisions st @ [Malformed]\<rparr>"
  have 1: "loop_body loads ag st = Next ?st'"
    using assms(1,3) decide_Malformed [of loads t1, OF assms(2)]
    by (simp add: loop_body_def Let_def)
  have 2: "loop_body loads ag ?st' =
             Return \<lparr>returned = Inr (strip t2), via = ByMalformed,
                     final = ?st'\<lparr>messages := messages ?st' @ [\<lparr>role = Assistant, content = t2\<rparr>],
                                  invalid_json_attempts := 2, world := w2,
                                  calls := calls ?st' @ [messages ?st'],
                                  decisions := decisions ?st' @ [Malformed]\<rparr>\<rparr>"
    using assms(4) decide_Malformed [of loads t2, OF assms(5)]
    by (simp add: loop_body_def Let_def)
  show ?thesis
    unfolding loop.simps 1 step.case 2 by simp
qed

theorem two_malformed_stop_witness:
  \<open>router (example_agent 4) (provider_name (example_agent 4)) (model_name (example_agent 4))
      (messages (start_state [''not json'', ''  still not json '', ''{"tool": null}'']))
      (world (start_state [''not json'', ''  still not json '', ''{"tool": null}''])) =
     (Some ''not json'', [''  still not json '', ''{"tool": null}'']) \<and>
   json_loads_plain (strip_fences (strip ''not json'')) = Inl JSONDecodeError \<and>
   invalid_json_attempts (start_state [''not json'', ''  still not json '', ''{"tool": null}'']) = 0 \<and>
   router (example_agent 4) (provider_name (example_agent 4)) (model_name (example_agent 4))
      (messages (start_state [''not json'', ''  still not json '', ''{"tool": null}'']) @
         [\<lparr>role = Assistant, content = ''not json''\<rparr>,
          \<lparr>role = User, content = corrective_text\<rparr>])
      [''  still not json '', ''{"tool": null}''] =
     (Some ''  still not json '', [''{"tool": null}'']) \<and>
   json_loads_plain (strip_fences (strip ''  still not json '')) = Inl JSONDecodeError \<and>
   returned (loop json_loads_plain (example_agent 4) (Suc (Suc 2))
               (start_state [''not json'', ''  still not json '', ''{"tool": null}''])) =
     Inr ''still not json'' \<and>
   length (calls (final (loop json_loads_plain (example_agent 4) (Suc (Suc 2))
               (start_state [''not json'', ''  still not json '', ''{"tool": null}''])))) = 2 \<and>
   world (final (loop json_loads_plain (example_agent 4) (Suc (Suc 2))
               (start_state [''not json'', ''  still not json '', ''{"tool": null}'']))) =
     [''{"tool": null}'']\<close>
proof -
  let ?ws = \<open>[''not json'', ''  still not json '', ''{"tool": null}'']\<close>
  let ?ag = "example_agent 4"
  have h1: \<open>router ?ag (provider_name ?ag) (model_name ?ag)
              (messages (start_state ?ws)) (world (start_state ?ws)) =
            (Some ''not json'', [''  still not json '', ''{"tool": null}''])\<close>
    by (simp add: example_agent_def scripted_router_def start_state_def)
  have h2: "json_loads_plain (strip_fences (strip ''not json'')) = Inl JSONDecodeError"
    by code_simp
  have h3: "invalid_json_attempts (start_state ?ws) = 0"
    by (simp add: start_state_def)
  have h4: \<open>router ?ag (provider_name ?ag) (model_name ?ag)
              (messages (start_state ?ws) @
                 [\<lparr>role = Assistant, content = ''not json''\<rparr>,
                  \<lparr>role = User, content = corrective_text\<rparr>])
              [''  still not json '', ''{"tool": null}''] =
            (Some ''  still not json '', [''{"tool": null}''])\<close>
    by (simp add: example_agent_def scripted_router_def)
  have h5: "json_loads_plain (strip_fences (strip ''  still not json '')) = Inl JSONDecodeError"
    by code_simp
  have s: "strip ''  still not json '' = ''still not json''"
    by code_simp
  note r = two_malformed_stop [OF h1 h2 h3 h4 h5, of 2]
  have c1: "returned (loop json_loads_plain ?ag (Suc (Suc 2)) (start_state ?ws)) =
              Inr ''still not json''"
    unfolding r by (simp add: s)
  have c2: "length (calls (final (loop json_loads_plain ?ag (Suc (Suc 2)) (start_state ?ws)))) = 2"
    unfolding r by (simp add: start_state_def)
  have c3: \<open>world (final (loop json_loads_plain ?ag (Suc (Suc 2)) (start_state ?ws))) =
              [''{"tool": null}'']\<close>
    unfolding r by simp
  show ?thesis
    by (intro conjI h1 h2 h3 h4 h5 c1 c2 c3)
qed

text \<open>
  Claim C3 as stated fails in two ways. In the first run both replies are malformed and
  the second ends with a line feed; the run ends at the second, and what it returns is
  that reply without the line feed, not the reply verbatim. In the second run the second
  reply is not JSON either, but opens five thousand arrays: \<open>json.loads\<close> raises
  \<open>RecursionError\<close>, which the \<open>except\<close> clause does not catch, and \<open>run_task\<close> raises it
  and returns nothing.
\<close>

theorem verbatim_counterexample:
  "decisions (final (run_task json_loads_plain (example_agent 4) ''task''
      [''not json'', ''still not json\<newline>''])) = [Malformed, Malformed] \<and>
   content (last (messages (final (run_task json_loads_plain (example_agent 4) ''task''
      [''not json'', ''still not json\<newline>''])))) = ''still not json\<newline>'' \<and>
   returned (run_task json_loads_plain (example_agent 4) ''task''
      [''not json'', ''still not json\<newline>'']) = Inr ''still not json'' \<and>
   returned (run_task json_loads_plain (example_agent 4) ''task''
      [''not json'', ''still not json\<newline>'']) \<noteq> Inr ''still not json\<newline>'' \<and>
   json_loads_plain ''not json'' = Inl JSONDecodeError \<and>
   json_loads_plain (replicate 5000 (CHR ''['') @ '' not json'') = Inl RecursionError \<and>
   returned (run_task json_loads_plain (example_agent 4) ''task''
      [''not json'', replicate 5000 (CHR ''['') @ '' not json'']) = Inl RecursionError"
proof -
  have 1: "decisions (final (run_task json_loads_plain (example_agent 4) ''task''
             [''not json'', ''still not json\<newline>''])) = [Malformed, Malformed] \<and>
           content (last (messages (final (run_task json_loads_plain (example_agent 4) ''task''
             [''not json'', ''still not json\<newline>''])))) = ''still not json\<newline>'' \<and>
           returned (run_task json_loads_plain (example_agent 4) ''task''
             [''not json'', ''still not json\<newline>'']) = Inr ''still not json'' \<and>
           returned (run_task json_loads_plain (example_agent 4) ''task''
             [''not json'', ''still not json\<newline>'']) \<noteq> Inr ''still not json\<newline>'' \<and>
           json_loads_plain ''not json'' = Inl JSONDecodeError"
    by code_simp
  have 2: "json_loads_plain (replicate 5000 (CHR ''['') @ '' not json'') = Inl RecursionError"
    by (rule json_loads_plain_too_deep) (simp add: recursion_limit_def)
  from 1 2 deep_reply_run show ?thesis by blast
qed

subsection \<open>C4: the shape of the conversation\<close>

text \<open>
  Claim C4. At the end of every run the conversation is one system message followed by
  user and assistant messages in turn, beginning with a user message. Every conversation
  that was handed to the router has this shape too and is an initial part of the final
  one, and each of them is a proper initial part of those handed over later: messages
  are only ever appended, and none is changed or removed.
\<close>

theorem conversation_shape:
  "conversation_ok (messages (final (run_task loads ag task w))) \<and>
   (\<forall>c \<in> set (calls (final (run_task loads ag task w))).
      conversation_ok c \<and> prefix c (messages (final (run_task loads ag task w)))) \<and>
   sorted_wrt strict_prefix (calls (final (run_task loads ag task w)))"
proof -
  let ?st = "\<lparr>messages =
                [\<lparr>role = System,
                  content = get_agent_system_prompt (prompts ag) @
                            ''\<newline>\<newline>Available tools:\<newline>'' @ build_tool_descriptions ag\<rparr>,
                 \<lparr>role = User, content = task\<rparr>],
              invalid_json_attempts = 0, world = w, calls = [], decisions = []\<rparr>"
  have 1: "awaiting_reply (messages ?st)"
    by (simp add: awaiting_reply_def conversation_ok_def)
  have 2: "\<forall>c \<in> set (calls ?st). conversation_ok c \<and> strict_prefix c (messages ?st)"
    by simp
  have 3: "sorted_wrt strict_prefix (calls ?st)"
    by simp
  from loop_conversation [OF 1 2 3, of loads ag "nat (max_steps ag)"] show ?thesis
    by (simp add: run_task_def Let_def)
qed

theorem conversation_shape_witness:
  \<open>length (calls (final (run_task json_loads_plain (example_agent 4) ''task''
      [''not json'',
       ''{"tool": "echo", "tool_input": {"a": 1}}'',
       ''{"tool": null, "final_answer": "done"}'']))) = 3 \<and>
   length (messages (final (run_task json_loads_plain (example_agent 4) ''task''
      [''not json'',
       ''{"tool": "echo", "tool_input": {"a": 1}}'',
       ''{"tool": null, "final_answer": "done"}'']))) = 7 \<and>
   conversation_ok (messages (final (run_task json_loads_plain (example_agent 4) ''task''
      [''not json'',
       ''{"tool": "echo", "tool_input": {"a": 1}}'',
       ''{"tool": null, "final_answer": "done"}'']))) \<and>
   list_all
     (\<lambda>c. conversation_ok c \<and>
          prefix c (messages (final (run_task json_loads_plain (example_agent 4) ''task''
            [''not json'',
             ''{"tool": "echo", "tool_input": {"a": 1}}'',
             ''{"tool": null, "final_answer": "done"}'']))))
     (calls (final (run_task json_loads_plain (example_agent 4) ''task''
        [''not json'',
         ''{"tool": "echo", "tool_input": {"a": 1}}'',
         ''{"tool": null, "final_answer": "done"}'']))) \<and>
   sorted_wrt strict_prefix (calls (final (run_task json_loads_plain (example_agent 4) ''task''
      [''not json'',
       ''{"tool": "echo", "tool_input": {"a": 1}}'',
       ''{"tool": null, "final_answer": "done"}''])))\<close>
proof -
  let ?ws = \<open>[''not json'',
              ''{"tool": "echo", "tool_input": {"a": 1}}'',
              ''{"tool": null, "final_answer": "done"}'']\<close>
  let ?R = "run_task json_loads_plain (example_agent 4) ''task'' ?ws"
  have c: "length (calls (final ?R)) = 3"
    by code_simp
  have m: "length (messages (final ?R)) = 7"
    by code_simp
  from conversation_shape [of json_loads_plain "example_agent 4" "''task''" ?ws] c m
  show ?thesis unfolding list_all_iff by blast
qed

subsection \<open>C5: fenced responses\<close>




subsection \<open>C6: a mapping without the key \<open>tool\<close>\<close>

text \<open>
  Claim C6, amended in the last case. When the reply decodes to a mapping that has no key
  \<open>tool\<close>, the run ends with this call and returns: the \<open>str()\<close> of the value of
  \<open>final_answer\<close> when the key is there and its value is true in Python's sense (for a
  string: not empty); otherwise the \<open>str()\<close> of the value of \<open>error\<close> when that key is there;
  otherwise the reply with its leading and trailing whitespace removed.
\<close>

theorem no_tool_key_precedence:
  assumes "router ag (provider_name ag) (model_name ag) (messages st) (world st) = (Some reply, w1)"
    and "loads (strip_fences (strip reply)) = Inr (JObj parsed)"
    and "map_of parsed ''tool'' = None"
  shows "returned (loop loads ag (Suc n) st) =
           Inr (case map_of parsed ''final_answer'' of
                  Some final_answer \<Rightarrow>
                    if truthy final_answer then py_str final_answer
                    else (case map_of parsed ''error'' of
                            Some err \<Rightarrow> py_str err
                          | None \<Rightarrow> strip reply)
                | None \<Rightarrow>
                    (case map_of parsed ''error'' of
                       Some err \<Rightarrow> py_str err
                     | None \<Rightarrow> strip reply)) \<and>
         calls (final (loop loads ag (Suc n) st)) = calls st @ [messages st] \<and>
         messages (final (loop loads ag (Suc n) st)) =
           messages st @ [\<lparr>role = Assistant, content = reply\<rparr>]"
proof -
  let ?t = "case map_of parsed ''final_answer'' of
                  Some final_answer \<Rightarrow>
                    if truthy final_answer then py_str final_answer
                    else (case map_of parsed ''error'' of
                            Some err \<Rightarrow> py_str err
                          | None \<Rightarrow> strip reply)
                | None \<Rightarrow>
                    (case map_of parsed ''error'' of
                       Some err \<Rightarrow> py_str err
                     | None \<Rightarrow> strip reply)"
  have "decide loads reply = Inr (FinalAnswer ?t) \<or> decide loads reply = Inr (Opaque ?t)"
    unfolding decide_no_tool_key [of loads reply parsed, OF assms(2,3)]
    by (simp split: option.splits)
  from loop_body_answer [OF assms(1) this, of n] show ?thesis by simp
qed

theorem no_tool_key_precedence_witness:
  \<open>router (example_agent 4) (provider_name (example_agent 4)) (model_name (example_agent 4))
      (messages (start_state [''{"final_answer": "", "error": "disk full"}'', ''not json'']))
      (world (start_state [''{"final_answer": "", "error": "disk full"}'', ''not json''])) =
     (Some ''{"final_answer": "", "error": "disk full"}'', [''not json'']) \<and>
   json_loads_plain (strip_fences (strip ''{"final_answer": "", "error": "disk full"}'')) =
     Inr (JObj [(''final_answer'', JStr ''''), (''error'', JStr ''disk full'')]) \<and>
   map_of [(''final_answer'', JStr ''''), (''error'', JStr ''disk full'')] ''tool'' = None \<and>
   returned (loop json_loads_plain (example_agent 4) (Suc 3)
               (start_state [''{"final_answer": "", "error": "disk full"}'', ''not json''])) =
     Inr ''disk full'' \<and>
   length (calls (final (loop json_loads_plain (example_agent 4) (Suc 3)
               (start_state [''{"final_answer": "", "error": "disk full"}'', ''not json''])))) = 1\<close>
proof -
  let ?reply = \<open>''{"final_answer": "", "error": "disk full"}''\<close>
  let ?ws = "[?reply, ''not json'']"
  let ?ag = "example_agent 4"
  let ?parsed = "[(''final_answer'', JStr ''''), (''error'', JStr ''disk full'')]"
  have h1: "router ?ag (provider_name ?ag) (model_name ?ag)
              (messages (start_state ?ws)) (world (start_state ?ws)) =
            (Some ?reply, [''not json''])"
    by (simp add: example_agent_def scripted_router_def start_state_def)
  have h2: "json_loads_plain (strip_fences (strip ?reply)) = Inr (JObj ?parsed)"
    by code_simp
  have h3: "map_of ?parsed ''tool'' = None"
    by simp
  note r = no_tool_key_precedence [where loads = json_loads_plain and n = 3, OF h1 h2 h3]
  have c1: "returned (loop json_loads_plain ?ag (Suc 3) (start_state ?ws)) = Inr ''disk full''"
    using r by (simp add: py_str_JStr)
  have c2: "length (calls (final (loop json_loads_plain ?ag (Suc 3) (start_state ?ws)))) = 1"
    using r by (simp add: start_state_def)
  show ?thesis
    by (intro conjI h1 h2 h3 c1 c2)
qed

text \<open>
  Claim C6 as stated fails in its last case. The reply is a mapping with neither \<open>tool\<close>
  nor \<open>final_answer\<close> nor \<open>error\<close>, followed by a line feed; what the run returns is the reply
  without the line feed, not the text of the assistant message.
\<close>

theorem raw_text_counterexample:
  \<open>decisions (final (run_task json_loads_plain (example_agent 4) ''task''
      [''{"note": "x"}\<newline>''])) = [Opaque ''{"note": "x"}''] \<and>
   content (last (messages (final (run_task json_loads_plain (example_agent 4) ''task''
      [''{"note": "x"}\<newline>''])))) = ''{"note": "x"}\<newline>'' \<and>
   returned (run_task json_loads_plain (example_agent 4) ''task''
      [''{"note": "x"}\<newline>'']) = Inr ''{"note": "x"}'' \<and>
   returned (run_task json_loads_plain (example_agent 4) ''task''
      [''{"note": "x"}\<newline>'']) \<noteq> Inr ''{"note": "x"}\<newline>''\<close>
  by code_simp

subsection \<open>C7: a tool that raises\<close>

text \<open>
  Claim C7, amended in the class of the exception. When the reply is a call of a
  registered tool and the tool raises an exception that is an instance of \<open>Exception\<close>,
  the iteration does not leave the loop: the exception becomes the text
  \<open>Tool '<name>' raised an error: <exception>\<close>, a user message with the name of the tool,
  the \<open>str()\<close> of the input and that text is appended after the assistant message, and the
  loop goes on with the next iteration, so that the exception does not leave \<open>run_task\<close>.
  An exception that is not an instance of \<open>Exception\<close> (\<open>KeyboardInterrupt\<close>, \<open>SystemExit\<close>,
  \<open>GeneratorExit\<close>) is not caught and leaves \<open>run_task\<close>.
\<close>

theorem tool_failure_contained:
  assumes "router ag (provider_name ag) (model_name ag) (messages st) (world st) = (Some reply, w1)"
    and "decide loads reply = Inr (ToolCall tool_name tool_input)"
    and "get_tool (tools ag) tool_name = Inr (Some t)"
    and "run t tool_input w1 = (Inl (e, exc), w2)"
  shows "(is_Exception e \<longrightarrow>
            loop loads ag (Suc n) st =
              loop loads ag n
                (st\<lparr>messages := messages st @
                        [\<lparr>role = Assistant, content = reply\<rparr>,
                         \<lparr>role = User,
                           content = ''Result from tool '' @ [CHR 0x27] @ py_str tool_name @
                                     [CHR 0x27] @ '' with input '' @ py_str tool_input @
                                     '':\<newline>'' @
                                     ''Tool '' @ [CHR 0x27] @ py_str tool_name @ [CHR 0x27] @
                                     '' raised an error: '' @ exc\<rparr>],
                    world := w2,
                    calls := calls st @ [messages st],
                    decisions := decisions st @ [ToolCall tool_name tool_input]\<rparr>)) \<and>
         (\<not> is_Exception e \<longrightarrow>
            returned (loop loads ag (Suc n) st) = Inl e \<and>
            via (loop loads ag (Suc n) st) = ByException)"
proof (cases "is_Exception e")
  case True
  have "loop_body loads ag st =
          Next (st\<lparr>messages := messages st @
                        [\<lparr>role = Assistant, content = reply\<rparr>,
                         \<lparr>role = User,
                           content = ''Result from tool '' @ [CHR 0x27] @ py_str tool_name @
                                     [CHR 0x27] @ '' with input '' @ py_str tool_input @
                                     '':\<newline>'' @
                                     ''Tool '' @ [CHR 0x27] @ py_str tool_name @ [CHR 0x27] @
                                     '' raised an error: '' @ exc\<rparr>],
                    world := w2,
                    calls := calls st @ [messages st],
                    decisions := decisions st @ [ToolCall tool_name tool_input]\<rparr>)"
    using assms True
    by (simp add: loop_body_def Let_def result_text_def raised_text_def)
  then show ?thesis using True by simp
next
  case False
  then show ?thesis
    using assms by (simp add: loop_body_def Let_def)
qed

theorem tool_failure_contained_witness:
  \<open>router (example_agent 1) (provider_name (example_agent 1)) (model_name (example_agent 1))
      (messages (start_state [''{"tool": "broken", "tool_input": {"a": 1}}'']))
      (world (start_state [''{"tool": "broken", "tool_input": {"a": 1}}''])) =
     (Some ''{"tool": "broken", "tool_input": {"a": 1}}'', []) \<and>
   decide json_loads_plain ''{"tool": "broken", "tool_input": {"a": 1}}'' =
     Inr (ToolCall (JStr ''broken'') (JObj [(''a'', JInt 1)])) \<and>
   get_tool (tools (example_agent 1)) (JStr ''broken'') = Inr (Some broken_tool) \<and>
   run broken_tool (JObj [(''a'', JInt 1)]) [] = (Inl (OtherException, ''boom''), []) \<and>
   is_Exception OtherException \<and>
   returned (loop json_loads_plain (example_agent 1) (Suc 0)
               (start_state [''{"tool": "broken", "tool_input": {"a": 1}}''])) =
     Inr ''Maximum tool-calling steps reached without a final answer.'' \<and>
   last (messages (final (loop json_loads_plain (example_agent 1) (Suc 0)
               (start_state [''{"tool": "broken", "tool_input": {"a": 1}}''])))) =
     \<lparr>role = User,
      content = ''Result from tool 'broken' with input {'a': 1}:\<newline>'' @
                ''Tool 'broken' raised an error: boom''\<rparr> \<and>
   router (example_agent 1) (provider_name (example_agent 1)) (model_name (example_agent 1))
      (messages (start_state [''{"tool": "interrupted"}'']))
      (world (start_state [''{"tool": "interrupted"}''])) =
     (Some ''{"tool": "interrupted"}'', []) \<and>
   decide json_loads_plain ''{"tool": "interrupted"}'' =
     Inr (ToolCall (JStr ''interrupted'') (JObj [])) \<and>
   get_tool (tools (example_agent 1)) (JStr ''interrupted'') = Inr (Some interrupted_tool) \<and>
   run interrupted_tool (JObj []) [] = (Inl (KeyboardInterrupt, []), []) \<and>
   \<not> is_Exception KeyboardInterrupt \<and>
   returned (loop json_loads_plain (example_agent 1) (Suc 0)
               (start_state [''{"tool": "interrupted"}''])) = Inl KeyboardInterrupt\<close>
proof -
  let ?reply = \<open>''{"tool": "broken", "tool_input": {"a": 1}}''\<close>
  let ?reply' = \<open>''{"tool": "interrupted"}''\<close>
  let ?ag = "example_agent 1"
  let ?inp = "JObj [(''a'', JInt 1)]"
  have h1: "router ?ag (provider_name ?ag) (model_name ?ag)
              (messages (start_state [?reply])) (world (start_state [?reply])) =
            (Some ?reply, [])"
    by (simp add: example_agent_def scripted_router_def start_state_def)
  have h2: "decide json_loads_plain ?reply = Inr (ToolCall (JStr ''broken'') ?inp)"
    by code_simp
  have h3: "get_tool (tools ?ag) (JStr ''broken'') = Inr (Some broken_tool)"
    by (simp add: get_tool_def example_agent_def register_tool_def echo_tool_def
          broken_tool_def interrupted_tool_def)
  have h4: "run broken_tool ?inp [] = (Inl (OtherException, ''boom''), [])"
    by (simp add: broken_tool_def)
  have h5: "is_Exception OtherException"
    by simp
  have p: "py_str ?inp = ''{'a': 1}''"
    by code_simp
  note r = tool_failure_contained
             [where loads = json_loads_plain and n = 0, OF h1 h2 h3 h4, THEN conjunct1,
              rule_format, OF h5]
  have c1: "returned (loop json_loads_plain ?ag (Suc 0) (start_state [?reply])) =
              Inr ''Maximum tool-calling steps reached without a final answer.''"
    unfolding r by (simp add: budget_text_def)
  have c2: "last (messages (final (loop json_loads_plain ?ag (Suc 0) (start_state [?reply])))) =
              \<lparr>role = User,
               content = ''Result from tool 'broken' with input {'a': 1}:\<newline>'' @
                         ''Tool 'broken' raised an error: boom''\<rparr>"
    unfolding r by (simp add: p py_str_JStr)
  have g1: "router ?ag (provider_name ?ag) (model_name ?ag)
              (messages (start_state [?reply'])) (world (start_state [?reply'])) =
            (Some ?reply', [])"
    by (simp add: example_agent_def scripted_router_def start_state_def)
  have g2: "decide json_loads_plain ?reply' = Inr (ToolCall (JStr ''interrupted'') (JObj []))"
    by code_simp
  have g3: "get_tool (tools ?ag) (JStr ''interrupted'') = Inr (Some interrupted_tool)"
    by (simp add: get_tool_def example_agent_def register_tool_def echo_tool_def
          broken_tool_def interrupted_tool_def)
  have g4: "run interrupted_tool (JObj []) [] = (Inl (KeyboardInterrupt, []), [])"
    by (simp add: interrupted_tool_def)
  have g5: "\<not> is_Exception KeyboardInterrupt"
    by simp
  note r' = tool_failure_contained
              [where loads = json_loads_plain and n = 0, OF g1 g2 g3 g4, THEN conjunct2,
               rule_format, OF g5]
  show ?thesis
    by (intro conjI h1 h2 h3 h4 h5 c1 c2 g1 g2 g3 g4 g5 r' [THEN conjunct1])
qed

text \<open>
  Claim C7 as stated fails. The reply calls a registered tool that raises
  \<open>KeyboardInterrupt\<close>: the \<open>except Exception\<close> clause does not catch it, no user message
  is appended, and \<open>run_task\<close> raises the exception of the tool.
\<close>

theorem tool_exception_counterexample:
  \<open>decisions (final (run_task json_loads_plain (example_agent 4) ''task''
      [''{"tool": "interrupted"}'', ''{"tool": null, "final_answer": "done"}''])) =
     [ToolCall (JStr ''interrupted'') (JObj [])] \<and>
   returned (run_task json_loads_plain (example_agent 4) ''task''
      [''{"tool": "interrupted"}'', ''{"tool": null, "final_answer": "done"}'']) =
     Inl KeyboardInterrupt \<and>
   via (run_task json_loads_plain (example_agent 4) ''task''
      [''{"tool": "interrupted"}'', ''{"tool": null, "final_answer": "done"}'']) = ByException \<and>
   last (messages (final (run_task json_loads_plain (example_agent 4) ''task''
      [''{"tool": "interrupted"}'', ''{"tool": null, "final_answer": "done"}'']))) =
     \<lparr>role = Assistant, content = ''{"tool": "interrupted"}''\<rparr> \<and>
   length (calls (final (run_task json_loads_plain (example_agent 4) ''task''
      [''{"tool": "interrupted"}'', ''{"tool": null, "final_answer": "done"}'']))) = 1\<close>
  by code_simp

subsection \<open>C8: a tool that is not registered\<close>

text \<open>
  What the code does for a tool name that can be looked up and is not found. When
  the \<open>tool\<close> of the reply is hashable (a string, a number or a boolean) and the registry
  has no tool of that name, the iteration does not leave the loop: the user message
  \<open>Tool '<name>' is not available.\<close> is appended after the assistant message, one iteration
  of the budget is used, and the counter of invalid responses keeps its value. When an
  iteration is left, the next call of the router is handed exactly this longer
  conversation.
\<close>

lemma unregistered_name_continues:
  assumes "router ag (provider_name ag) (model_name ag) (messages st) (world st) = (Some reply, w1)"
    and "decide loads reply = Inr (ToolCall tool_name tool_input)"
    and "get_tool (tools ag) tool_name = Inr None"
  shows "loop loads ag (Suc n) st =
           loop loads ag n
             (st\<lparr>messages := messages st @
                     [\<lparr>role = Assistant, content = reply\<rparr>,
                      \<lparr>role = User,
                        content = ''Tool '' @ [CHR 0x27] @ py_str tool_name @ [CHR 0x27] @
                                  '' is not available.''\<rparr>],
                 world := w1,
                 calls := calls st @ [messages st],
                 decisions := decisions st @ [ToolCall tool_name tool_input]\<rparr>) \<and>
         (0 < n \<longrightarrow>
            prefix (calls st @
                      [messages st,
                       messages st @
                         [\<lparr>role = Assistant, content = reply\<rparr>,
                          \<lparr>role = User,
                            content = ''Tool '' @ [CHR 0x27] @ py_str tool_name @ [CHR 0x27] @
                                      '' is not available.''\<rparr>]])
                   (calls (final (loop loads ag (Suc n) st))))"
proof -
  let ?st' = "st\<lparr>messages := messages st @
                     [\<lparr>role = Assistant, content = reply\<rparr>,
                      \<lparr>role = User,
                        content = ''Tool '' @ [CHR 0x27] @ py_str tool_name @ [CHR 0x27] @
                                  '' is not available.''\<rparr>],
                 world := w1,
                 calls := calls st @ [messages st],
                 decisions := decisions st @ [ToolCall tool_name tool_input]\<rparr>"
  have "loop_body loads ag st = Next ?st'"
    using assms
    by (simp add: loop_body_def Let_def unavailable_text_def)
  then have eq: "loop loads ag (Suc n) st = loop loads ag n ?st'"
    by simp
  have "prefix (calls ?st' @ [messages ?st']) (calls (final (loop loads ag (Suc m) ?st')))" for m
    by (rule loop_first_call)
  then have "0 < n \<Longrightarrow> prefix (calls ?st' @ [messages ?st']) (calls (final (loop loads ag n ?st')))"
    by (cases n) simp_all
  then show ?thesis
    unfolding eq by simp
qed

lemma get_tool_unregistered:
  "get_tool reg tool_name = Inr None \<longleftrightarrow>
     hashable tool_name \<and> (\<forall>s. tool_name = JStr s \<longrightarrow> map_of reg s = None)"
  by (cases tool_name) (simp_all add: get_tool_def)

text \<open>
  Claim C8 at the input on which the code fails it. The reply is a tool call whose
  \<open>tool\<close> is the array \<open>["echo"]\<close>. No tool is registered under this value, so the claim
  has the loop append the message that the tool is not available and go on. The code
  hands the list to \<open>ToolRegistry.get_tool\<close>, whose dictionary lookup raises \<open>TypeError\<close>
  for an unhashable key: the run ends after this one call with that exception, no user
  message is appended, and the second reply is never asked for.
\<close>

theorem unhashable_tool_name_raises:
  \<open>decisions (final (run_task json_loads_plain (example_agent 4) ''task''
      [''{"tool": ["echo"]}'', ''{"tool": null, "final_answer": "done"}''])) =
     [ToolCall (JArr [JStr ''echo'']) (JObj [])] \<and>
   get_tool (tools (example_agent 4)) (JArr [JStr ''echo'']) = Inl TypeError \<and>
   returned (run_task json_loads_plain (example_agent 4) ''task''
      [''{"tool": ["echo"]}'', ''{"tool": null, "final_answer": "done"}'']) = Inl TypeError \<and>
   via (run_task json_loads_plain (example_agent 4) ''task''
      [''{"tool": ["echo"]}'', ''{"tool": null, "final_answer": "done"}'']) = ByException \<and>
   last (messages (final (run_task json_loads_plain (example_agent 4) ''task''
      [''{"tool": ["echo"]}'', ''{"tool": null, "final_answer": "done"}'']))) =
     \<lparr>role = Assistant, content = ''{"tool": ["echo"]}''\<rparr> \<and>
   length (calls (final (run_task json_loads_plain (example_agent 4) ''task''
      [''{"tool": ["echo"]}'', ''{"tool": null, "final_answer": "done"}'']))) = 1 \<and>
   world (final (run_task json_loads_plain (example_agent 4) ''task''
      [''{"tool": ["echo"]}'', ''{"tool": null, "final_answer": "done"}''])) =
     [''{"tool": null, "final_answer": "done"}'']\<close>
proof -
  have g: "get_tool (tools (example_agent 4)) (JArr [JStr ''echo'']) = Inl TypeError"
    by (simp add: get_tool_def)
  have r: \<open>decisions (final (run_task json_loads_plain (example_agent 4) ''task''
      [''{"tool": ["echo"]}'', ''{"tool": null, "final_answer": "done"}''])) =
     [ToolCall (JArr [JStr ''echo'']) (JObj [])] \<and>
   returned (run_task json_loads_plain (example_agent 4) ''task''
      [''{"tool": ["echo"]}'', ''{"tool": null, "final_answer": "done"}'']) = Inl TypeError \<and>
   via (run_task json_loads_plain (example_agent 4) ''task''
      [''{"tool": ["echo"]}'', ''{"tool": null, "final_answer": "done"}'']) = ByException \<and>
   last (messages (final (run_task json_loads_plain (example_agent 4) ''task''
      [''{"tool": ["echo"]}'', ''{"tool": null, "final_answer": "done"}'']))) =
     \<lparr>role = Assistant, content = ''{"tool": ["echo"]}''\<rparr> \<and>
   length (calls (final (run_task json_loads_plain (example_agent 4) ''task''
      [''{"tool": ["echo"]}'', ''{"tool": null, "final_answer": "done"}'']))) = 1 \<and>
   world (final (run_task json_loads_plain (example_agent 4) ''task''
      [''{"tool": ["echo"]}'', ''{"tool": null, "final_answer": "done"}''])) =
     [''{"tool": null, "final_answer": "done"}'']\<close>
    by code_simp
  from g r show ?thesis
    by blast
qed

subsection \<open>C9: a final answer in the first reply\<close>

text \<open>
  Claim C9. Let the budget be at least one, and let the first reply be the text of a JSON
  object (it begins with an opening and ends with a closing brace) that decodes to a
  mapping in which \<open>tool\<close> is null and \<open>final_answer\<close> is a non-empty string \<open>x\<close>. Then
  \<open>run_task\<close> returns \<open>x\<close> and has called the router exactly once.
\<close>

theorem final_answer_in_one_call:
  assumes "1 \<le> max_steps ag"
    and "router ag (provider_name ag) (model_name ag)
           [\<lparr>role = System,
             content = get_agent_system_prompt (prompts ag) @
                       ''\<newline>\<newline>Available tools:\<newline>'' @ build_tool_descriptions ag\<rparr>,
            \<lparr>role = User, content = task\<rparr>] w = (Some reply, w1)"
    and "reply \<noteq> []" and "hd reply = CHR ''{''" and "last reply = CHR ''}''"
    and "loads reply = Inr (JObj parsed)"
    and "map_of parsed ''tool'' = Some JNull"
    and "map_of parsed ''final_answer'' = Some (JStr x)"
    and "x \<noteq> []"
  shows "returned (run_task loads ag task w) = Inr x \<and>
         via (run_task loads ag task w) = ByFinalAnswer \<and>
         length (calls (final (run_task loads ag task w))) = 1"
proof -
  have s: "strip reply = reply"
    using assms(3,4,5) by (intro strip_id) (simp_all add: py_isspace_def)
  have "\<not> startswith reply ''```''"
    using assms(3,4) by (cases reply) (simp_all add: startswith_def)
  then have f: "strip_fences (strip reply) = reply"
    using s by (simp add: strip_fences_plain)
  have d: "decide loads reply = Inr (FinalAnswer x)"
    using assms(6,7,8,9) by (simp add: decide_def Let_def f py_str_JStr)
  obtain n where n: "nat (max_steps ag) = Suc n"
    using assms(1) by (cases "nat (max_steps ag)") simp_all
  show ?thesis
    using assms(2) d by (simp add: run_task_def Let_def n loop_body_def)
qed

theorem final_answer_in_one_call_witness:
  \<open>1 \<le> max_steps (example_agent 4) \<and>
   router (example_agent 4) (provider_name (example_agent 4)) (model_name (example_agent 4))
     [\<lparr>role = System,
       content = get_agent_system_prompt (prompts (example_agent 4)) @
                 ''\<newline>\<newline>Available tools:\<newline>'' @ build_tool_descriptions (example_agent 4)\<rparr>,
      \<lparr>role = User, content = ''task''\<rparr>]
     [''{"tool": null, "final_answer": "hi"}'', ''not json''] =
     (Some ''{"tool": null, "final_answer": "hi"}'', [''not json'']) \<and>
   ''{"tool": null, "final_answer": "hi"}'' \<noteq> [] \<and>
   hd ''{"tool": null, "final_answer": "hi"}'' = CHR ''{'' \<and>
   last ''{"tool": null, "final_answer": "hi"}'' = CHR ''}'' \<and>
   json_loads_plain ''{"tool": null, "final_answer": "hi"}'' =
     Inr (JObj [(''tool'', JNull), (''final_answer'', JStr ''hi'')]) \<and>
   map_of [(''tool'', JNull), (''final_answer'', JStr ''hi'')] ''tool'' = Some JNull \<and>
   map_of [(''tool'', JNull), (''final_answer'', JStr ''hi'')] ''final_answer'' = Some (JStr ''hi'') \<and>
   ''hi'' \<noteq> [] \<and>
   returned (run_task json_loads_plain (example_agent 4) ''task''
               [''{"tool": null, "final_answer": "hi"}'', ''not json'']) = Inr ''hi'' \<and>
   via (run_task json_loads_plain (example_agent 4) ''task''
               [''{"tool": null, "final_answer": "hi"}'', ''not json'']) = ByFinalAnswer \<and>
   length (calls (final (run_task json_loads_plain (example_agent 4) ''task''
               [''{"tool": null, "final_answer": "hi"}'', ''not json'']))) = 1\<close>
proof -
  let ?reply = \<open>''{"tool": null, "final_answer": "hi"}''\<close>
  let ?ag = "example_agent 4"
  let ?parsed = "[(''tool'', JNull), (''final_answer'', JStr ''hi'')]"
  have h1: "1 \<le> max_steps ?ag"
    by (simp add: example_agent_def)
  have h2: "router ?ag (provider_name ?ag) (model_name ?ag)
              [\<lparr>role = System,
                content = get_agent_system_prompt (prompts ?ag) @
                          ''\<newline>\<newline>Available tools:\<newline>'' @ build_tool_descriptions ?ag\<rparr>,
               \<lparr>role = User, content = ''task''\<rparr>]
              [?reply, ''not json''] = (Some ?reply, [''not json''])"
    by (simp add: example_agent_def scripted_router_def)
  have h3: "?reply \<noteq> []" by simp
  have h4: "hd ?reply = CHR ''{''" by simp
  have h5: "last ?reply = CHR ''}''" by simp
  have h6: "json_loads_plain ?reply = Inr (JObj ?parsed)"
    by code_simp
  have h7: "map_of ?parsed ''tool'' = Some JNull" by simp
  have h8: "map_of ?parsed ''final_answer'' = Some (JStr ''hi'')" by simp
  have h9: "''hi'' \<noteq> []" by simp
  note r = final_answer_in_one_call
             [where loads = json_loads_plain, OF h1 h2 h3 h4 h5 h6 h7 h8 h9]
  show ?thesis
    by (intro conjI h1 h2 h3 h4 h5 h6 h7 h8 h9 r [THEN conjunct1]
          r [THEN conjunct2, THEN conjunct1] r [THEN conjunct2, THEN conjunct2])
qed

subsection \<open>C10: a budget of zero or less\<close>

text \<open>
  Claim C10. With \<open>max_steps\<close> zero or negative, \<open>run_task\<close> returns the message of the used-up
  budget at once, whatever the task: the router is never called and the world is as it was.
\<close>

theorem zero_budget_returns_at_once:
  assumes "max_steps ag \<le> 0"
  shows "returned (run_task loads ag task w) =
           Inr ''Maximum tool-calling steps reached without a final answer.'' \<and>
         via (run_task loads ag task w) = ByBudget \<and>
         calls (final (run_task loads ag task w)) = [] \<and>
         world (final (run_task loads ag task w)) = w"
  using assms by (simp add: run_task_def Let_def budget_text_def)

theorem zero_budget_returns_at_once_witness:
  \<open>max_steps (example_agent 0) \<le> 0 \<and>
   returned (run_task json_loads_plain (example_agent 0) ''task''
               [''{"tool": null, "final_answer": "hi"}'']) =
     Inr ''Maximum tool-calling steps reached without a final answer.'' \<and>
   via (run_task json_loads_plain (example_agent 0) ''task''
               [''{"tool": null, "final_answer": "hi"}'']) = ByBudget \<and>
   calls (final (run_task json_loads_plain (example_agent 0) ''task''
               [''{"tool": null, "final_answer": "hi"}''])) = [] \<and>
   world (final (run_task json_loads_plain (example_agent 0) ''task''
               [''{"tool": null, "final_answer": "hi"}''])) =
     [''{"tool": null, "final_answer": "hi"}'']\<close>
proof -
  have h: "max_steps (example_agent 0) \<le> 0"
    by (simp add: example_agent_def)
  from zero_budget_returns_at_once
         [OF h, of json_loads_plain "''task''" \<open>[''{"tool": null, "final_answer": "hi"}'']\<close>] h
  show ?thesis by blast
qed


end
